theory Spec2Isabelle
  imports Main "HOL-Library.AList"
begin

section \<open>The error model (package scerr)\<close>

text \<open>
  The gRPC codes that the constructors of package scerr attach to their errors.
  \<open>OK\<close> is the zero value of \<open>codes.Code\<close>, the one an \<open>errCore{}\<close> literal holds.
\<close>

datatype code =
    OK | Unknown | DeadlineExceeded | CodeAborted | FailedPrecondition | AlreadyExists
  | InvalidArgument | CodeNotFound | PermissionDenied | ResourceExhausted | OutOfRange
  | Unimplemented | Internal | DataLoss | Unauthenticated | Unavailable

text \<open>
  The struct types that embed \<open>*errCore\<close>. A type switch or a type assertion on an
  error looks at this tag. The last two are the error types of package retry, which
  \<open>Core.Read\<close> tests for.
\<close>

datatype errtag =
    ErrTimeout | ErrNotFound | ErrNotAvailable | ErrDuplicate | ErrInvalidRequest
  | ErrNotAuthenticated | ErrForbidden | ErrAborted | ErrOverflow | ErrOverload
  | ErrNotImplemented | ErrRuntimePanic | ErrInvalidInstance | ErrInvalidParameter
  | ErrInvalidInstanceContent | ErrInconsistent
  | RetryErrTimeout | RetryErrStopRetry

text \<open>
  \<open>fields\<close> is \<open>map[string]interface{}\<close>; the values are kept as text. A nil map is
  \<open>None\<close>, \<open>make(fields)\<close> is \<open>Some []\<close>.
\<close>

type_synonym fields = "(string \<times> string) list option"

text \<open>
  \<open>errCore\<close> is the struct of the source. An \<open>error\<close> is a Go error value: one that
  does not implement \<open>scerr.Error\<close> (\<open>GoError\<close>, for instance the result of
  \<open>fmt.Errorf\<close>), a bare \<open>*errCore\<close>, one of the typed wrappers around an
  \<open>*errCore\<close>, or an \<open>ErrList\<close>, which embeds an \<open>*errCore\<close> and holds a list of errors.
\<close>

datatype errCore =
  ErrCore (Message: string) (Causer: "error option") (Fields: fields)
          (consequences: "error list") (grpcCode: code)
and error =
    GoError string
  | Bare errCore
  | Typed errtag errCore
  | ErrList errCore "error list"

text \<open>\<open>len(e.Fields)\<close>: the length of a nil map is zero.\<close>

definition fields_len :: "fields \<Rightarrow> nat" where
  "fields_len f = (case f of None \<Rightarrow> 0 | Some kvs \<Rightarrow> length kvs)"

text \<open>
  \<open>FieldsFormatter\<close>. \<open>json.Marshal\<close> is a library function: it is the parameter
  \<open>jm\<close>, with \<open>None\<close> for a marshalling error.
\<close>

definition errCore_FieldsFormatter :: "(fields \<Rightarrow> string option) \<Rightarrow> errCore \<Rightarrow> string" where
  "errCore_FieldsFormatter jm e = (case jm (Fields e) of None \<Rightarrow> [] | Some j \<Rightarrow> j)"

text \<open>
  The loop of \<open>CauseFormatter\<close> over the consequences: \<open>ind\<close> is the index of the
  head of the remaining list, \<open>lenConseq\<close> the length of the whole list, and the
  strings are the \<open>con.Error()\<close> of each consequence.
\<close>

fun conseq_loop :: "nat \<Rightarrow> nat \<Rightarrow> string list \<Rightarrow> string" where
  "conseq_loop ind lenConseq [] = []"
| "conseq_loop ind lenConseq (con # rest) =
     con @ (if ind + 1 < lenConseq then '';'' else []) @ conseq_loop (ind + 1) lenConseq rest"

text \<open>
  \<open>Error()\<close> of every error value, with \<open>CauseFormatter\<close> inlined in \<open>errCore_Error\<close>.
  The typed wrappers inherit \<open>errCore.Error\<close>; \<open>ErrList\<close> overrides it with
  \<open>spew.Sdump\<close> of its list, a library function: it is the parameter \<open>sd\<close>.
\<close>

fun errCore_Error :: "(fields \<Rightarrow> string option) \<Rightarrow> (error list \<Rightarrow> string) \<Rightarrow> errCore \<Rightarrow> string"
and error_Error :: "(fields \<Rightarrow> string option) \<Rightarrow> (error list \<Rightarrow> string) \<Rightarrow> error \<Rightarrow> string" where
  "errCore_Error jm sd (ErrCore m c f cs g) =
     m
     @ ((case c of None \<Rightarrow> []
         | Some cause \<Rightarrow> '' ['' @ ''caused by {'' @ error_Error jm sd cause @ ''}]'')
        @ (if length cs > 0
           then ''[with consequences {''
                @ conseq_loop 0 (length cs) (map (error_Error jm sd) cs) @ ''}]''
           else []))
     @ (if fields_len f > 0
        then CHR 0x0A # ''With fields: '' @ errCore_FieldsFormatter jm (ErrCore m c f cs g)
        else [])"
| "error_Error jm sd (GoError s) = s"
| "error_Error jm sd (Bare e) = errCore_Error jm sd e"
| "error_Error jm sd (Typed t e) = errCore_Error jm sd e"
| "error_Error jm sd (ErrList e es) = sd es"

text \<open>\<open>CauseFormatter\<close> on its own, as the source has it.\<close>

definition errCore_CauseFormatter ::
  "(fields \<Rightarrow> string option) \<Rightarrow> (error list \<Rightarrow> string) \<Rightarrow> errCore \<Rightarrow> string" where
  "errCore_CauseFormatter jm sd e =
     (case Causer e of None \<Rightarrow> []
      | Some cause \<Rightarrow> '' ['' @ ''caused by {'' @ error_Error jm sd cause @ ''}]'')
     @ (if length (consequences e) > 0
        then ''[with consequences {''
             @ conseq_loop 0 (length (consequences e)) (map (error_Error jm sd) (consequences e))
             @ ''}]''
        else [])"

text \<open>
  The type assertion \<open>err.(Error)\<close>: it holds for every value built on an \<open>*errCore\<close>,
  and the methods it gives access to work on that embedded \<open>*errCore\<close>.
\<close>

fun as_Error :: "error \<Rightarrow> errCore option" where
  "as_Error (GoError s) = None"
| "as_Error (Bare e) = Some e"
| "as_Error (Typed t e) = Some e"
| "as_Error (ErrList e es) = Some e"

text \<open>
  The method \<open>errCore.AddConsequence\<close>: the receiver after the call. The method
  returns the receiver itself, the bare \<open>*errCore\<close>. A nil slice and an empty one are
  the same list here.
\<close>

definition errCore_AddConsequence :: "errCore \<Rightarrow> error option \<Rightarrow> errCore" where
  "errCore_AddConsequence e err =
     (case err of
        None \<Rightarrow> e
      | Some x \<Rightarrow> ErrCore (Message e) (Causer e) (Fields e) (consequences e @ [x]) (grpcCode e))"

text \<open>
  What a call \<open>_ = xerr.AddConsequence(derr)\<close> leaves in \<open>xerr\<close>: the embedded
  \<open>*errCore\<close> is updated in place, the wrapper is kept.
\<close>

fun AddConsequence_in_place :: "error \<Rightarrow> error option \<Rightarrow> error" where
  "AddConsequence_in_place (GoError s) err = GoError s"
| "AddConsequence_in_place (Bare e) err = Bare (errCore_AddConsequence e err)"
| "AddConsequence_in_place (Typed t e) err = Typed t (errCore_AddConsequence e err)"
| "AddConsequence_in_place (ErrList e es) err = ErrList (errCore_AddConsequence e err) es"

text \<open>
  The function \<open>AddConsequence(err, cons)\<close> of the package: the value it returns. An
  error that is not a \<open>scerr.Error\<close> is logged and returned as it is.
\<close>

definition AddConsequence :: "error option \<Rightarrow> error option \<Rightarrow> error option" where
  "AddConsequence err cons =
     (case err of
        None \<Rightarrow> None
      | Some x \<Rightarrow>
          (case as_Error x of
             Some conseq \<Rightarrow>
               (if cons \<noteq> None then Some (Bare (errCore_AddConsequence conseq cons))
                else Some x)
           | None \<Rightarrow> Some x))"

text \<open>\<open>Consequences(err)\<close> of the package.\<close>

definition Consequences :: "error option \<Rightarrow> error list" where
  "Consequences err =
     (case err of
        None \<Rightarrow> []
      | Some x \<Rightarrow> (case as_Error x of Some conseq \<Rightarrow> consequences conseq | None \<Rightarrow> []))"

text \<open>\<open>Wrap\<close> and \<open>NewError\<close>.\<close>

definition Wrap :: "error option \<Rightarrow> string \<Rightarrow> error" where
  "Wrap cause message =
     Bare (ErrCore message cause None []
            (case cause of Some (Bare casted) \<Rightarrow> grpcCode casted | _ \<Rightarrow> Unknown))"

definition NewError :: "string \<Rightarrow> error option \<Rightarrow> error list \<Rightarrow> error" where
  "NewError message cause conseqs = Bare (ErrCore message cause (Some []) conseqs OK)"

text \<open>
  \<open>decorateWithCallTrace\<close>. The source appends the caller's function name, file and
  line (\<open>runtime.Caller\<close>) and the stack (\<open>debug.Stack\<close>). Neither is a function of the
  arguments: the model follows the branch where \<open>runtime.Caller\<close> reports no frame and
  takes the stack text as empty. No statement below depends on these messages.
\<close>

definition decorateWithCallTrace :: "string \<Rightarrow> string \<Rightarrow> string \<Rightarrow> string" where
  "decorateWithCallTrace prefix what why =
     (let msg = prefix;
          msg = (if what \<noteq> [] then msg @ '' '' @ [CHR 0x27] @ what @ [CHR 0x27] else msg);
          msg = (if why \<noteq> [] then msg @ '': '' @ why else msg)
      in msg @ [CHR 0x0A])"

text \<open>The constructors of the typed errors.\<close>

definition TimeoutError :: "string \<Rightarrow> error option \<Rightarrow> error" where
  "TimeoutError msg cause = Typed ErrTimeout (ErrCore msg cause (Some []) [] DeadlineExceeded)"

definition NotFoundError :: "string \<Rightarrow> error" where
  "NotFoundError msg = Typed ErrNotFound (ErrCore msg None (Some []) [] CodeNotFound)"

definition NotAvailableError :: "string \<Rightarrow> error" where
  "NotAvailableError msg = Typed ErrNotAvailable (ErrCore msg None (Some []) [] Unavailable)"

definition AbortedError :: "string \<Rightarrow> error option \<Rightarrow> error" where
  "AbortedError msg err =
     Typed ErrAborted
       (ErrCore (if msg = [] then ''aborted'' else msg) err (Some []) [] CodeAborted)"

definition InvalidInstanceError :: error where
  "InvalidInstanceError =
     Typed ErrInvalidInstance
       (ErrCore (decorateWithCallTrace ''invalid instance:'' [] ''calling method from a nil pointer'')
          None (Some []) [] FailedPrecondition)"

definition InvalidParameterError :: "string \<Rightarrow> string \<Rightarrow> error" where
  "InvalidParameterError what why =
     Typed ErrInvalidParameter
       (ErrCore (decorateWithCallTrace ''invalid parameter:'' what why)
          None (Some []) [] FailedPrecondition)"

definition InconsistentError :: "string \<Rightarrow> error" where
  "InconsistentError msg =
     Typed ErrInconsistent
       (ErrCore (decorateWithCallTrace msg [] []) None (Some []) [] DataLoss)"

text \<open>\<open>ErrListError\<close>: nil for an empty list, an \<open>ErrList\<close> around \<open>errCore{}\<close> otherwise.\<close>

definition ErrListError :: "error list \<Rightarrow> error option" where
  "ErrListError errs =
     (if length errs = 0 then None else Some (ErrList (ErrCore [] None None [] OK) errs))"

text \<open>
  The type assertions of the callers: \<open>err.(scerr.ErrNotFound)\<close> and the like hold
  exactly for the wrapper of that type.
\<close>

fun has_tag :: "errtag \<Rightarrow> error \<Rightarrow> bool" where
  "has_tag t (Typed t' e) = (t = t')"
| "has_tag t _ = False"

subsection \<open>The format the specification gives for an error string\<close>

text \<open>
  The specification's words: the message, then \<open> [caused by {<cause>}]\<close> exactly when
  there is a cause, then \<open>[with consequences {c1;c2;...}]\<close> exactly when there are
  consequences, then \<open>With fields: {...}\<close> exactly when the fields map is not empty.
  \<open>semicolon_separated\<close> is the list written with a semicolon between neighbours.
\<close>

fun semicolon_separated :: "string list \<Rightarrow> string" where
  "semicolon_separated [] = []"
| "semicolon_separated [c] = c"
| "semicolon_separated (c # cs) = c @ '';'' @ semicolon_separated cs"

definition claimed_Error ::
  "(fields \<Rightarrow> string option) \<Rightarrow> (error list \<Rightarrow> string) \<Rightarrow> errCore \<Rightarrow> string" where
  "claimed_Error jm sd e =
     Message e
     @ (case Causer e of None \<Rightarrow> []
        | Some cause \<Rightarrow> '' [caused by {'' @ error_Error jm sd cause @ ''}]'')
     @ (if consequences e = [] then []
        else ''[with consequences {''
             @ semicolon_separated (map (error_Error jm sd) (consequences e)) @ ''}]'')
     @ (if fields_len (Fields e) = 0 then []
        else ''With fields: '' @ (case jm (Fields e) of None \<Rightarrow> [] | Some j \<Rightarrow> j))"

section \<open>Tasks and abstract resources\<close>

text \<open>
  A task has an identity and a status. A \<open>concurrency.Task\<close> argument is an interface
  value that may be nil: it is a \<open>task option\<close>. The locks taken on a task
  (\<open>SafeLock\<close>, \<open>SafeRLock\<close>) order concurrent callers and change no data: the
  model is of one caller at a time.
\<close>

datatype taskstatus = READY | RUNNING | DONE | ABORTED

record task =
  task_id :: nat
  task_status :: taskstatus

text \<open>\<open>abstract.VirtualIP\<close> and \<open>abstract.Network\<close>; the hosts of a VIP are kept by id.\<close>

record VirtualIP =
  vip_ID :: string
  vip_Name :: string
  vip_NetworkID :: string
  PrivateIP :: string
  PublicIP :: string
  Hosts :: "string list"

datatype networkstate = UNKNOWNSTATE | GATEWAY_CREATION | GATEWAY_CONFIGURATION | NETWORK_READY | NETWORK_ERROR

datatype ipversion = IPv4 | IPv6

record Network =
  ID :: string
  Name :: string
  CIDR :: string
  Domain :: string
  GatewayID :: string
  SecondaryGatewayID :: string
  VIP :: "VirtualIP option"
  IPVersion :: ipversion
  NetworkState :: networkstate
  Subnetworks :: "(string \<times> string) list"
  Subnet :: bool
  Parent :: string

text \<open>
  \<open>propertiesv1.NetworkHosts\<close>, the payload of the property \<open>hosts.v1\<close>. A Go map is
  a list of pairs with distinct keys; the order of the list is the order in which a
  \<open>range\<close> over the map happens to visit the keys.
\<close>

record NetworkHosts =
  ByID :: "(string \<times> string) list"
  ByName :: "(string \<times> string) list"

section \<open>The world outside the process\<close>

text \<open>The requests sent to the provider driver.\<close>

datatype call =
    CallDeleteHost string
  | CallDeleteVIP VirtualIP
  | CallDeleteNetwork string
  | CallGetNetwork string

text \<open>
  The world holds the object storage (one bucket: an object is found by the path of
  its folder, the subfolder \<open>byID\<close> or \<open>byName\<close>, and its key), the outcomes the
  object storage will give to the next requests (\<open>Some e\<close>: the request fails with
  \<open>e\<close> and changes nothing; \<open>None\<close> or no entry: the request is served), and the
  requests sent to the provider so far, oldest first.
\<close>

type_synonym bytes = string

record world =
  bucket :: "((string \<times> string \<times> string) \<times> bytes) list"
  faults :: "error option list"
  calls :: "call list"

definition next_fault :: "world \<Rightarrow> error option \<times> world" where
  "next_fault w = (case faults w of [] \<Rightarrow> (None, w) | f # fs \<Rightarrow> (f, w\<lparr>faults := fs\<rparr>))"

subsection \<open>The metadata folder\<close>

text \<open>
  Modelled from the spec: the type \<open>folder\<close> of package operations (\<open>newFolder\<close>,
  \<open>Read\<close>, \<open>Write\<close>, \<open>Delete\<close>, \<open>Search\<close>, \<open>Browse\<close>) is not among the sources. The
  specification gives a container in object storage with the operations
  \<open>Read(sub, key, deserialize)\<close>, \<open>Write(sub, key, bytes)\<close>, \<open>Delete(sub, key)\<close>,
  \<open>Search(sub, key)\<close> and \<open>Browse(sub, fn)\<close>, where a missing object is \<open>NotFound\<close>.
  A folder is its path; a nil folder answers \<open>InvalidInstance\<close>, as every method of
  the repository does on a nil receiver.
\<close>

definition folder_Search :: "string option \<Rightarrow> string \<Rightarrow> string \<Rightarrow> world \<Rightarrow> error option \<times> world" where
  "folder_Search f sub key w =
     (case f of
        None \<Rightarrow> (Some InvalidInstanceError, w)
      | Some path \<Rightarrow>
          (case next_fault w of
             (Some e, w') \<Rightarrow> (Some e, w')
           | (None, w') \<Rightarrow>
               (case map_of (bucket w') (path, sub, key) of
                  None \<Rightarrow> (Some (NotFoundError (''failed to find '' @ sub @ ''/'' @ key)), w')
                | Some buf \<Rightarrow> (None, w'))))"

definition folder_Read ::
  "string option \<Rightarrow> string \<Rightarrow> string \<Rightarrow> (bytes \<Rightarrow> 's \<Rightarrow> error option \<times> 's) \<Rightarrow> 's \<Rightarrow> world
     \<Rightarrow> error option \<times> 's \<times> world" where
  "folder_Read f sub key deserialize s w =
     (case f of
        None \<Rightarrow> (Some InvalidInstanceError, s, w)
      | Some path \<Rightarrow>
          (case next_fault w of
             (Some e, w') \<Rightarrow> (Some e, s, w')
           | (None, w') \<Rightarrow>
               (case map_of (bucket w') (path, sub, key) of
                  None \<Rightarrow> (Some (NotFoundError (''failed to read '' @ sub @ ''/'' @ key)), s, w')
                | Some buf \<Rightarrow> (case deserialize buf s of (err, s') \<Rightarrow> (err, s', w')))))"

definition folder_Write :: "string option \<Rightarrow> string \<Rightarrow> string \<Rightarrow> bytes \<Rightarrow> world \<Rightarrow> error option \<times> world" where
  "folder_Write f sub key buf w =
     (case f of
        None \<Rightarrow> (Some InvalidInstanceError, w)
      | Some path \<Rightarrow>
          (case next_fault w of
             (Some e, w') \<Rightarrow> (Some e, w')
           | (None, w') \<Rightarrow> (None, w'\<lparr>bucket := AList.update (path, sub, key) buf (bucket w')\<rparr>)))"

definition folder_Delete :: "string option \<Rightarrow> string \<Rightarrow> string \<Rightarrow> world \<Rightarrow> error option \<times> world" where
  "folder_Delete f sub key w =
     (case f of
        None \<Rightarrow> (Some InvalidInstanceError, w)
      | Some path \<Rightarrow>
          (case next_fault w of
             (Some e, w') \<Rightarrow> (Some e, w')
           | (None, w') \<Rightarrow>
               (case map_of (bucket w') (path, sub, key) of
                  None \<Rightarrow> (Some (NotFoundError (''failed to delete '' @ sub @ ''/'' @ key)), w')
                | Some buf \<Rightarrow> (None, w'\<lparr>bucket := AList.delete (path, sub, key) (bucket w')\<rparr>))))"

text \<open>\<open>Browse\<close> hands the bytes of every object of the subfolder to \<open>fn\<close>, until one call fails.\<close>

fun browse_loop :: "(bytes \<Rightarrow> 's \<Rightarrow> error option \<times> 's) \<Rightarrow> bytes list \<Rightarrow> 's \<Rightarrow> error option \<times> 's" where
  "browse_loop fn [] s = (None, s)"
| "browse_loop fn (buf # rest) s =
     (case fn buf s of (Some e, s') \<Rightarrow> (Some e, s') | (None, s') \<Rightarrow> browse_loop fn rest s')"

definition folder_Browse ::
  "string option \<Rightarrow> string \<Rightarrow> (bytes \<Rightarrow> 's \<Rightarrow> error option \<times> 's) \<Rightarrow> 's \<Rightarrow> world
     \<Rightarrow> error option \<times> 's \<times> world" where
  "folder_Browse f sub fn s w =
     (case f of
        None \<Rightarrow> (Some InvalidInstanceError, s, w)
      | Some path \<Rightarrow>
          (case next_fault w of
             (Some e, w') \<Rightarrow> (Some e, s, w')
           | (None, w') \<Rightarrow>
               (case browse_loop fn
                       (map snd (filter (\<lambda>((p, sb, k), buf). p = path \<and> sb = sub) (bucket w'))) s of
                  (err, s') \<Rightarrow> (err, s', w'))))"

subsection \<open>Package retry\<close>

text \<open>
  Modelled from the spec: package retry is not among the sources. The specification
  gives a bounded loop with a delay between tries and a total budget: a try that
  returns nil ends the loop with nil, a try that returns a stop-retry error ends the loop
  with that error at once, any other error is tried again, and a spent budget gives
  a timeout error of the package. Wall-clock time is counted in whole seconds and a
  try takes no time: with a delay of one second and a budget of \<open>timeout\<close> seconds the
  tries happen at seconds \<open>0, 1, ..., timeout\<close>.
\<close>

definition StopRetryError :: "error \<Rightarrow> error" where
  "StopRetryError inErr =
     Typed RetryErrStopRetry (ErrCore ''stopping retries'' (Some inErr) (Some []) [] Unknown)"

definition retry_TimeoutError :: "error option \<Rightarrow> error" where
  "retry_TimeoutError lastErr =
     Typed RetryErrTimeout (ErrCore ''retries timed out'' lastErr (Some []) [] DeadlineExceeded)"

fun retry_loop ::
  "nat \<Rightarrow> error option \<Rightarrow> ('s \<Rightarrow> world \<Rightarrow> error option \<times> 's \<times> world) \<Rightarrow> 's \<Rightarrow> world
     \<Rightarrow> error option \<times> 's \<times> world" where
  "retry_loop 0 lastErr run s w = (Some (retry_TimeoutError lastErr), s, w)"
| "retry_loop (Suc n) lastErr run s w =
     (case run s w of
        (None, s', w') \<Rightarrow> (None, s', w')
      | (Some e, s', w') \<Rightarrow>
          (if has_tag RetryErrStopRetry e then (Some e, s', w')
           else retry_loop n (Some e) run s' w'))"

definition WhileUnsuccessfulDelay1Second ::
  "('s \<Rightarrow> world \<Rightarrow> error option \<times> 's \<times> world) \<Rightarrow> nat \<Rightarrow> 's \<Rightarrow> world
     \<Rightarrow> error option \<times> 's \<times> world" where
  "WhileUnsuccessfulDelay1Second run timeout s w = retry_loop (timeout + 1) None run s w"

subsection \<open>Shielded values and properties\<close>

text \<open>
  Modelled from the spec: \<open>concurrency.Shielded\<close> is not among the sources. The
  specification gives a wrapper around a cloneable payload: \<open>Inspect\<close> hands a clone
  to its callback, \<open>Alter\<close> hands a clone and commits it when the callback returns
  without error (an \<open>Alter\<close> whose callback fails leaves the revision in memory as
  it was). A \<open>*Shielded\<close> may be nil (\<open>None\<close>): a method called on a nil receiver
  answers \<open>InvalidInstance\<close> without running the callback. That is what
  \<open>ErrInvalidInstance\<close> is documented for ("has to be used when a method is called
  from an instance equal to nil"), what the methods of \<open>abstract.Network\<close> do on a nil
  receiver, and what the specification's post-condition of \<open>Delete\<close> (the carrier is
  nulled, and later operations report \<open>InvalidInstance\<close>) relies on. The state \<open>'s\<close>
  is whatever else the callback reads and writes.
\<close>

definition Shielded_Inspect ::
  "'p option \<Rightarrow> ('p \<Rightarrow> 's \<Rightarrow> error option \<times> 's) \<Rightarrow> 's \<Rightarrow> error option \<times> 's" where
  "Shielded_Inspect d inspector s =
     (case d of
        None \<Rightarrow> (Some InvalidInstanceError, s)
      | Some witness \<Rightarrow> inspector witness s)"

definition Shielded_Alter ::
  "'p option \<Rightarrow> ('p \<Rightarrow> 's \<Rightarrow> error option \<times> 'p \<times> 's) \<Rightarrow> 's \<Rightarrow> error option \<times> 'p option \<times> 's" where
  "Shielded_Alter d alterer s =
     (case d of
        None \<Rightarrow> (Some InvalidInstanceError, None, s)
      | Some witness \<Rightarrow>
          (case alterer witness s of
             (Some err, clone, s') \<Rightarrow> (Some err, Some witness, s')
           | (None, clone, s') \<Rightarrow> (None, Some clone, s')))"

text \<open>
  Modelled from the spec: \<open>serialize.JSONProperties\<close> is not among the sources. The
  specification gives a container from property names to payloads, where
  \<open>Inspect\<close> of an unknown key returns an error and \<open>Alter\<close> of an unknown key starts
  from an empty payload. The only property of the sources is \<open>hosts.v1\<close>; a payload
  of another type is \<open>OtherProperty\<close>.
\<close>

datatype property = NetworkHostsV1 NetworkHosts | OtherProperty string

type_synonym JSONProperties = "(string \<times> property) list"

definition NewJSONProperties :: "string \<Rightarrow> error + JSONProperties" where
  "NewJSONProperties module =
     (if module = [] then Inl (InvalidParameterError ''module'' ''cannot be empty string'')
      else Inr [])"

definition JSONProperties_Inspect ::
  "JSONProperties \<Rightarrow> string \<Rightarrow> (property \<Rightarrow> 's \<Rightarrow> error option \<times> 's) \<Rightarrow> 's \<Rightarrow> error option \<times> 's" where
  "JSONProperties_Inspect props key inspector s =
     (case map_of props key of
        None \<Rightarrow> (Some (GoError (''no property '' @ key)), s)
      | Some clonable \<Rightarrow> inspector clonable s)"

definition HostsV1 :: string where
  "HostsV1 = ''hosts.v1''"

section \<open>The core of a persistent object (core.go)\<close>

definition byIDFolderName :: string where
  "byIDFolderName = ''byID''"

definition byNameFolderName :: string where
  "byNameFolderName = ''byName''"

text \<open>
  The payload of a core is a \<open>data.Clonable\<close>, on which the core asserts the
  interfaces \<open>data.Serializable\<close> and \<open>data.Identifyable\<close>. For a payload type
  \<open>'p\<close> the record gives the outcome of both assertions, the methods of the two
  interfaces, and the name \<open>reflect.TypeOf\<close> reports.
\<close>

record 'p iface =
  isSerializable :: "'p \<Rightarrow> bool"
  isIdentifyable :: "'p \<Rightarrow> bool"
  Serialize :: "'p \<Rightarrow> error + bytes"
  Deserialize :: "bytes \<Rightarrow> 'p \<Rightarrow> error option \<times> 'p"
  ident_SafeGetName :: "'p \<Rightarrow> string"
  ident_SafeGetID :: "'p \<Rightarrow> string"
  typeName :: "'p \<Rightarrow> string"

text \<open>
  The struct \<open>Core\<close>. \<open>shielded\<close>, \<open>properties\<close> and \<open>folder\<close> are pointers, nil when
  \<open>None\<close>; \<open>name\<close> and \<open>id\<close> are \<open>atomic.Value\<close>s, \<open>None\<close> until a string is stored.
\<close>

record 'p Core =
  kind :: string
  shielded :: "'p option"
  properties :: "JSONProperties option"
  folder :: "string option"
  core_name :: "string option"
  core_id :: "string option"

definition nullCore :: "'p Core" where
  "nullCore = \<lparr>kind = ''nil'', shielded = None, properties = None, folder = None,
               core_name = None, core_id = None\<rparr>"

text \<open>
  \<open>NewCore\<close>. \<open>svc_is_nil\<close> tells whether the service is nil; \<open>newFolder\<close> is not
  among the sources and is taken to give the folder of the path.
\<close>

definition NewCore :: "bool \<Rightarrow> string \<Rightarrow> string \<Rightarrow> 'p Core \<times> error option" where
  "NewCore svc_is_nil knd path =
     (if svc_is_nil then (nullCore, Some (InvalidParameterError ''svc'' ''cannot be nil''))
      else if knd = [] then (nullCore, Some (InvalidParameterError ''kind'' ''cannot be empty string''))
      else if path = [] then (nullCore, Some (InvalidParameterError ''path'' ''cannot be empty string''))
      else (case NewJSONProperties (''resources.'' @ knd) of
              Inl err \<Rightarrow> (nullCore, Some err)
            | Inr props \<Rightarrow>
                (\<lparr>kind = knd, shielded = None, properties = Some props, folder = Some path,
                  core_name = None, core_id = None\<rparr>, None)))"

text \<open>\<open>IsNull\<close>, on a \<open>*Core\<close> that may be nil.\<close>

definition IsNull :: "'p Core option \<Rightarrow> bool" where
  "IsNull c = (case c of None \<Rightarrow> True | Some c' \<Rightarrow> kind c' = [] \<or> kind c' = ''nil'')"

definition SafeGetID :: "'p Core \<Rightarrow> string" where
  "SafeGetID c =
     (if IsNull (Some c) then ''<NullCore>''
      else (case core_id c of Some i \<Rightarrow> i | None \<Rightarrow> []))"

definition SafeGetName :: "'p Core \<Rightarrow> string" where
  "SafeGetName c =
     (if IsNull (Some c) then ''<NullCore>''
      else (case core_name c of Some n \<Rightarrow> n | None \<Rightarrow> []))"

definition quoted :: "string \<Rightarrow> string" where
  "quoted s = CHR 0x27 # s @ [CHR 0x27]"

definition expected_provided :: "string \<Rightarrow> string \<Rightarrow> string" where
  "expected_provided what tn = quoted what @ '' expected, '' @ quoted tn @ '' provided''"

text \<open>
  The callbacks of \<open>Inspect\<close> and \<open>Alter\<close> (\<open>resources.Callback\<close>) receive the payload
  and the properties of the core. The properties are reached through a pointer, so
  what a callback does to them stays. \<open>'u\<close> is the state the callback closes over,
  and the callback may act on the world. A nil callback is \<open>None\<close>.
\<close>

type_synonym ('p, 'u) Callback =
  "'p \<Rightarrow> JSONProperties \<Rightarrow> 'u \<Rightarrow> world \<Rightarrow> error option \<times> 'p \<times> JSONProperties \<times> 'u \<times> world"

text \<open>\<open>updateIdentity\<close>.\<close>

definition updateIdentity :: "'p iface \<Rightarrow> task option \<Rightarrow> 'p Core \<Rightarrow> error option \<times> 'p Core" where
  "updateIdentity ifc task c =
     (if shielded c \<noteq> None
      then Shielded_Inspect (shielded c)
             (\<lambda>clonable c.
                if \<not> isIdentifyable ifc clonable
                then (Some (InconsistentError
                              (expected_provided ''data.Identifyable'' (typeName ifc clonable))), c)
                else (None, c\<lparr>core_name := Some (ident_SafeGetName ifc clonable),
                               core_id := Some (ident_SafeGetID ifc clonable)\<rparr>))
             c
      else (None, c\<lparr>core_name := Some [], core_id := Some []\<rparr>))"

text \<open>\<open>readByID\<close> and \<open>readByName\<close>.\<close>

definition readByID ::
  "'p iface \<Rightarrow> task option \<Rightarrow> string \<Rightarrow> 'p Core \<Rightarrow> world \<Rightarrow> error option \<times> 'p Core \<times> world" where
  "readByID ifc task i c w =
     (case Shielded_Alter (shielded c)
             (\<lambda>clonable w.
                if \<not> isSerializable ifc clonable
                then (Some (InconsistentError
                              (expected_provided ''data.Serializable'' (typeName ifc clonable))),
                      clonable, w)
                else folder_Read (folder c) byIDFolderName i (Deserialize ifc) clonable w)
             w of
        (err, sh, w') \<Rightarrow> (err, c\<lparr>shielded := sh\<rparr>, w'))"

definition readByName ::
  "'p iface \<Rightarrow> task option \<Rightarrow> string \<Rightarrow> 'p Core \<Rightarrow> world \<Rightarrow> error option \<times> 'p Core \<times> world" where
  "readByName ifc task n c w =
     (case Shielded_Alter (shielded c)
             (\<lambda>clonable w.
                if \<not> isSerializable ifc clonable
                then (Some (InconsistentError
                              (expected_provided ''data.Serializable'' (typeName ifc clonable))),
                      clonable, w)
                else folder_Read (folder c) byNameFolderName n (Deserialize ifc) clonable w)
             w of
        (err, sh, w') \<Rightarrow> (err, c\<lparr>shielded := sh\<rparr>, w'))"

text \<open>\<open>readByReference\<close>: by id, and by name when the id is not found.\<close>

definition readByReference ::
  "'p iface \<Rightarrow> task option \<Rightarrow> string \<Rightarrow> 'p Core \<Rightarrow> world \<Rightarrow> error option \<times> 'p Core \<times> world" where
  "readByReference ifc task ref c w =
     (case readByID ifc task ref c w of
        (Some err, c', w') \<Rightarrow>
          (if \<not> has_tag ErrNotFound err then (Some err, c', w')
           else readByName ifc task ref c' w')
      | (None, c', w') \<Rightarrow> (None, c', w'))"

text \<open>\<open>Core.write\<close>: the payload is serialised once, and the buffer goes under both indices.\<close>

definition Core_write :: "'p iface \<Rightarrow> task option \<Rightarrow> 'p Core \<Rightarrow> world \<Rightarrow> error option \<times> world" where
  "Core_write ifc task c w =
     Shielded_Inspect (shielded c)
       (\<lambda>clonable w.
          if \<not> isSerializable ifc clonable
          then (Some (InconsistentError
                        (expected_provided ''data.Serializable'' (typeName ifc clonable))), w)
          else (case Serialize ifc clonable of
                  Inl err \<Rightarrow> (Some err, w)
                | Inr buf \<Rightarrow>
                    (if \<not> isIdentifyable ifc clonable
                     then (Some (InconsistentError
                                   (expected_provided ''data.Identifyable'' (typeName ifc clonable))), w)
                     else (case folder_Write (folder c) byNameFolderName
                                  (ident_SafeGetName ifc clonable) buf w of
                             (Some err, w') \<Rightarrow> (Some err, w')
                           | (None, w') \<Rightarrow>
                               folder_Write (folder c) byIDFolderName
                                 (ident_SafeGetID ifc clonable) buf w'))))
       w"

text \<open>
  \<open>Reload\<close>. The message of the \<open>NotFound\<close> error prints the \<open>atomic.Value\<close>
  \<open>c.name\<close> with \<open>%s\<close>, which gives the stored string between braces.
\<close>

definition atomic_text :: "string option \<Rightarrow> string" where
  "atomic_text v = (case v of None \<Rightarrow> ''{%!s(<nil>)}'' | Some s \<Rightarrow> ''{'' @ s @ ''}'')"

definition Reload :: "'p iface \<Rightarrow> task option \<Rightarrow> 'p Core \<Rightarrow> world \<Rightarrow> error option \<times> 'p Core \<times> world" where
  "Reload ifc task c w =
     (if IsNull (Some c) then (Some InvalidInstanceError, c, w)
      else if task = None then (Some (InvalidParameterError ''task'' ''cannot be nil''), c, w)
      else (case readByID ifc task (SafeGetID c) c w of
              (Some err, c', w') \<Rightarrow>
                (if has_tag ErrNotFound err
                 then (Some (NotFoundError
                               (''the metadata of '' @ kind c @ '' '' @ quoted (atomic_text (core_name c))
                                @ '' vanished'')), c', w')
                 else (Some err, c', w'))
            | (None, c', w') \<Rightarrow> (None, c', w')))"

text \<open>The properties of the core, created when the pointer is nil.\<close>

definition populate_properties :: "'p Core \<Rightarrow> error + ('p Core \<times> JSONProperties)" where
  "populate_properties c =
     (case properties c of
        Some props \<Rightarrow> Inr (c, props)
      | None \<Rightarrow>
          (case NewJSONProperties (''resources.'' @ kind c) of
             Inl err \<Rightarrow> Inl err
           | Inr props \<Rightarrow> Inr (c\<lparr>properties := Some props\<rparr>, props)))"

text \<open>\<open>Inspect\<close>: the callback works on a clone, which is dropped.\<close>

definition Inspect ::
  "'p iface \<Rightarrow> task option \<Rightarrow> ('p, 'u) Callback option \<Rightarrow> 'p Core \<Rightarrow> 'u \<Rightarrow> world
     \<Rightarrow> error option \<times> 'p Core \<times> 'u \<times> world" where
  "Inspect ifc task callback c u w =
     (if IsNull (Some c) then (Some InvalidInstanceError, c, u, w)
      else if task = None then (Some (InvalidParameterError ''task'' ''cannot be nil''), c, u, w)
      else (case callback of
              None \<Rightarrow> (Some (InvalidParameterError ''callback'' ''cannot be nil''), c, u, w)
            | Some cb \<Rightarrow>
                (case populate_properties c of
                   Inl err \<Rightarrow> (Some err, c, u, w)
                 | Inr (c1, props) \<Rightarrow>
                     (case Reload ifc task c1 w of
                        (Some err, c2, w2) \<Rightarrow> (Some err, c2, u, w2)
                      | (None, c2, w2) \<Rightarrow>
                          (case Shielded_Inspect (shielded c2)
                                  (\<lambda>clonable (props, u, w).
                                     case cb clonable props u w of
                                       (err, clone, props', u', w') \<Rightarrow> (err, (props', u', w')))
                                  (props, u, w2) of
                             (err, (props', u', w3)) \<Rightarrow>
                               (err, c2\<lparr>properties := Some props'\<rparr>, u', w3))))))"

text \<open>\<open>Alter\<close>: reload, run the callback on a clone, commit and write when it returned nil.\<close>

definition Alter ::
  "'p iface \<Rightarrow> task option \<Rightarrow> ('p, 'u) Callback option \<Rightarrow> 'p Core \<Rightarrow> 'u \<Rightarrow> world
     \<Rightarrow> error option \<times> 'p Core \<times> 'u \<times> world" where
  "Alter ifc task callback c u w =
     (if IsNull (Some c) then (Some InvalidInstanceError, c, u, w)
      else if task = None then (Some (InvalidParameterError ''task'' ''cannot be nil''), c, u, w)
      else (case callback of
              None \<Rightarrow> (Some (InvalidParameterError ''callback'' ''cannot be nil''), c, u, w)
            | Some cb \<Rightarrow>
                (case populate_properties c of
                   Inl err \<Rightarrow> (Some err, c, u, w)
                 | Inr (c1, props) \<Rightarrow>
                     (case Reload ifc task c1 w of
                        (Some err, c2, w2) \<Rightarrow> (Some err, c2, u, w2)
                      | (None, c2, w2) \<Rightarrow>
                          (case Shielded_Alter (shielded c2)
                                  (\<lambda>clonable (props, u, w).
                                     case cb clonable props u w of
                                       (err, clone, props', u', w') \<Rightarrow> (err, clone, (props', u', w')))
                                  (props, u, w2) of
                             (Some err, sh, (props', u', w3)) \<Rightarrow>
                               (Some err, c2\<lparr>shielded := sh, properties := Some props'\<rparr>, u', w3)
                           | (None, sh, (props', u', w3)) \<Rightarrow>
                               (case Core_write ifc task (c2\<lparr>shielded := sh, properties := Some props'\<rparr>) w3 of
                                  (err, w4) \<Rightarrow>
                                    (err, c2\<lparr>shielded := sh, properties := Some props'\<rparr>, u', w4)))))))"

text \<open>\<open>Carry\<close>.\<close>

definition Carry ::
  "'p iface \<Rightarrow> task option \<Rightarrow> 'p option \<Rightarrow> 'p Core \<Rightarrow> world \<Rightarrow> error option \<times> 'p Core \<times> world" where
  "Carry ifc task clonable c w =
     (if IsNull (Some c) then (Some InvalidInstanceError, c, w)
      else if task = None then (Some (InvalidParameterError ''task'' ''cannot be nil''), c, w)
      else (case clonable of
              None \<Rightarrow> (Some (InvalidParameterError ''clonable'' ''cannot be nil''), c, w)
            | Some payload \<Rightarrow>
                (if shielded c \<noteq> None
                 then (Some (NotAvailableError ''already carrying a shielded value''), c, w)
                 else (case updateIdentity ifc task (c\<lparr>shielded := Some payload\<rparr>) of
                         (Some err, c') \<Rightarrow> (Some err, c', w)
                       | (None, c') \<Rightarrow> (case Core_write ifc task c' w of (err, w') \<Rightarrow> (err, c', w'))))))"

text \<open>
  \<open>Read\<close>. The function handed to the retry loop keeps a \<open>NotFound\<close> as it is, so
  that it is tried again, and wraps every other error to stop the loop. The budget
  is \<open>10*time.Second\<close>.
\<close>

definition Read ::
  "'p iface \<Rightarrow> task option \<Rightarrow> string \<Rightarrow> 'p Core \<Rightarrow> world \<Rightarrow> error option \<times> 'p Core \<times> world" where
  "Read ifc task ref c w =
     (if IsNull (Some c) then (Some InvalidInstanceError, c, w)
      else if task = None then (Some (InvalidParameterError ''task'' ''cannot be nil''), c, w)
      else if ref = [] then (Some (InvalidParameterError ''ref'' ''cannot be empty string''), c, w)
      else if shielded c \<noteq> None
      then (Some (NotAvailableError ''metadata is already carrying a value''), c, w)
      else (case WhileUnsuccessfulDelay1Second
                   (\<lambda>c w. case readByReference ifc task ref c w of
                             (Some inErr, c', w') \<Rightarrow>
                               (if has_tag ErrNotFound inErr then (Some inErr, c', w')
                                else (Some (StopRetryError inErr), c', w'))
                           | (None, c', w') \<Rightarrow> (None, c', w'))
                   10 c w of
              (Some err, c', w') \<Rightarrow>
                (if has_tag RetryErrTimeout err
                 then (Some (NotFoundError
                               (''failed to load metadata of '' @ kind c @ '' '' @ quoted ref)), c', w')
                 else if has_tag RetryErrStopRetry err then (Some err, c', w')
                 else (Some err, c', w'))
            | (None, c', w') \<Rightarrow> (case updateIdentity ifc task c' of (err, c'') \<Rightarrow> (err, c'', w'))))"

text \<open>\<open>BrowseFolder\<close>.\<close>

definition BrowseFolder ::
  "task option \<Rightarrow> (bytes \<Rightarrow> 'u \<Rightarrow> error option \<times> 'u) option \<Rightarrow> 'p Core \<Rightarrow> 'u \<Rightarrow> world
     \<Rightarrow> error option \<times> 'u \<times> world" where
  "BrowseFolder task callback c u w =
     (if IsNull (Some c) then (Some InvalidInstanceError, u, w)
      else if task = None then (Some (InvalidParameterError ''task'' ''cannot be nil''), u, w)
      else (case callback of
              None \<Rightarrow> (Some (InvalidParameterError ''callback'' ''cannot be nil''), u, w)
            | Some cb \<Rightarrow> folder_Browse (folder c) byIDFolderName cb u w))"

text \<open>
  \<open>Delete\<close>. \<open>unless_NotFound\<close> is the test made on the outcome of each search: an
  error that is not a \<open>NotFound\<close> is returned.
\<close>

definition unless_NotFound :: "error option \<Rightarrow> error option" where
  "unless_NotFound err =
     (case err of None \<Rightarrow> None | Some e \<Rightarrow> if has_tag ErrNotFound e then None else Some e)"

definition Delete :: "task option \<Rightarrow> 'p Core \<Rightarrow> world \<Rightarrow> error option \<times> 'p Core \<times> world" where
  "Delete task c w =
     (if IsNull (Some c) then (Some InvalidInstanceError, c, w)
      else if task = None then (Some (InvalidParameterError ''task'' ''cannot be nil''), c, w)
      else
        (let i = SafeGetID c; n = SafeGetName c in
         case folder_Search (folder c) byIDFolderName i w of
           (err1, w1) \<Rightarrow>
             (case unless_NotFound err1 of
                Some err \<Rightarrow> (Some err, c, w1)
              | None \<Rightarrow>
                  (let idFound = (err1 = None) in
                   case folder_Search (folder c) byNameFolderName n w1 of
                     (err2, w2) \<Rightarrow>
                       (case unless_NotFound err2 of
                          Some err \<Rightarrow> (Some err, c, w2)
                        | None \<Rightarrow>
                            (let nameFound = (err2 = None) in
                             case (if idFound then folder_Delete (folder c) byIDFolderName i w2
                                   else (None, w2)) of
                               (Some err, w3) \<Rightarrow> (Some err, c, w3)
                             | (None, w3) \<Rightarrow>
                                 (case (if nameFound
                                        then folder_Delete (folder c) byNameFolderName n w3
                                        else (None, w3)) of
                                    (Some err, w4) \<Rightarrow> (Some err, c, w4)
                                  | (None, w4) \<Rightarrow> (None, c\<lparr>shielded := None\<rparr>, w4))))))))"

section \<open>The provider service\<close>

text \<open>
  The driver of the cloud provider is outside the repository's core. Its answers
  are parameters: each may depend on the requests sent so far. A call sends the
  request, which is appended to the log of the world, and returns the answer.
\<close>

record service =
  DeleteHost :: "call list \<Rightarrow> string \<Rightarrow> error option"
  DeleteVIP :: "call list \<Rightarrow> VirtualIP \<Rightarrow> error option"
  DeleteNetwork :: "call list \<Rightarrow> string \<Rightarrow> error option"
  GetNetwork :: "call list \<Rightarrow> string \<Rightarrow> Network option \<times> error option"

definition svc_DeleteHost :: "service \<Rightarrow> string \<Rightarrow> world \<Rightarrow> error option \<times> world" where
  "svc_DeleteHost svc i w = (DeleteHost svc (calls w) i, w\<lparr>calls := calls w @ [CallDeleteHost i]\<rparr>)"

definition svc_DeleteVIP :: "service \<Rightarrow> VirtualIP \<Rightarrow> world \<Rightarrow> error option \<times> world" where
  "svc_DeleteVIP svc vip w = (DeleteVIP svc (calls w) vip, w\<lparr>calls := calls w @ [CallDeleteVIP vip]\<rparr>)"

definition svc_DeleteNetwork :: "service \<Rightarrow> string \<Rightarrow> world \<Rightarrow> error option \<times> world" where
  "svc_DeleteNetwork svc i w =
     (DeleteNetwork svc (calls w) i, w\<lparr>calls := calls w @ [CallDeleteNetwork i]\<rparr>)"

definition svc_GetNetwork ::
  "service \<Rightarrow> string \<Rightarrow> world \<Rightarrow> (Network option \<times> error option) \<times> world" where
  "svc_GetNetwork svc i w = (GetNetwork svc (calls w) i, w\<lparr>calls := calls w @ [CallGetNetwork i]\<rparr>)"

section \<open>The network resource (package operations, network.go)\<close>

subsection \<open>Text helpers\<close>

text \<open>\<open>%d\<close> of an unsigned number, and \<open>strings.Join\<close>.\<close>

fun show_nat :: "nat \<Rightarrow> string" where
  "show_nat n =
     (if n < 10 then [''0123456789'' ! n]
      else show_nat (n div 10) @ [''0123456789'' ! (n mod 10)])"

declare show_nat.simps [simp del]

fun strings_Join :: "string list \<Rightarrow> string \<Rightarrow> string" where
  "strings_Join [] sep = []"
| "strings_Join [a] sep = a"
| "strings_Join (a # rest) sep = a @ sep @ strings_Join rest sep"

text \<open>
  Modelled from the spec: \<open>strprocess.Plural\<close> is not among the sources. The message
  the specification gives for one attached host reads \<open>1 host is still attached\<close>:
  the plural mark is empty for one and \<open>s\<close> above.
\<close>

definition Plural :: "nat \<Rightarrow> string" where
  "Plural n = (if n > 1 then ''s'' else [])"


subsection \<open>Names of the gateways in \<open>network.Create\<close>\<close>







subsection \<open>\<open>deleteGateway\<close>\<close>

text \<open>
  A gateway is a host, that is a core with a payload of its own. The provider host
  is deleted, then the metadata of the host. \<open>fail.NewErrorList\<close> of this file is
  \<open>ErrListError\<close> of the error package. The third message has no verb for its
  argument, which \<open>fmt\<close> reports at the end of the text.
\<close>

definition deleteGateway ::
  "service \<Rightarrow> task option \<Rightarrow> 'h Core \<Rightarrow> world \<Rightarrow> error option \<times> 'h Core \<times> world" where
  "deleteGateway svc task gw w =
     (let nm = SafeGetName gw in
      case svc_DeleteHost svc (SafeGetID gw) w of
        (xerr1, w1) \<Rightarrow>
          (let errors1 =
                 (case xerr1 of
                    None \<Rightarrow> []
                  | Some e \<Rightarrow>
                      if has_tag ErrNotFound e then []
                      else if has_tag ErrTimeout e
                      then [Wrap (Some e) (''failed to delete host '' @ quoted nm @ '', timeout'')]
                      else [Wrap (Some e) (''failed to delete host '' @ quoted nm)])
           in case Delete task gw w1 of
                (xerr2, gw', w2) \<Rightarrow>
                  (let errors2 =
                         errors1 @
                         (case xerr2 of
                            None \<Rightarrow> []
                          | Some e \<Rightarrow>
                              if has_tag ErrNotFound e then []
                              else if has_tag ErrTimeout e
                              then [Wrap (Some e)
                                      (''timeout trying to delete gateway metadata''
                                       @ ''%!(EXTRA string='' @ nm @ '')'')]
                              else [Wrap (Some e)
                                      (''failed to delete gateway '' @ quoted nm @ '' metadata'')])
                   in (if length errors2 > 0 then ErrListError errors2 else None, gw', w2))))"

subsection \<open>\<open>network.Delete\<close>\<close>

text \<open>
  The function given to \<open>props.Inspect\<close> for the property \<open>hosts.v1\<close>: the hosts
  still attached are counted in \<open>ByName\<close>, and their names are listed in the message.
\<close>

definition attached_hosts_inspector :: "Network \<Rightarrow> property \<Rightarrow> error option" where
  "attached_hosts_inspector an clonable =
     (case clonable of
        OtherProperty tn \<Rightarrow>
          Some (InconsistentError (expected_provided ''*propertiesv1.NetworkHosts'' tn))
      | NetworkHostsV1 networkHostsV1 \<Rightarrow>
          (let hostsLen = length (ByName networkHostsV1) in
           if hostsLen > 0
           then (let list = map fst (ByName networkHostsV1);
                     verb = (if hostsLen = 1 then ''is'' else ''are'');
                     errorMsg = ''cannot delete network '' @ quoted (Name an) @ '': ''
                                @ show_nat hostsLen @ '' host'' @ Plural hostsLen @ '' '' @ verb
                                @ '' still attached to it: '' @ strings_Join list '', ''
                 in Some (NotAvailableError errorMsg))
           else None))"

text \<open>
  The deletion of one gateway, as \<open>network.Delete\<close> does it for the primary and then
  for the secondary gateway. \<open>LoadHost\<close> is not among the sources: it is the
  parameter \<open>loadHost\<close>, which gives a host or an error and may act on the world.
\<close>

definition delete_gateway_by_id ::
  "(task option \<Rightarrow> string \<Rightarrow> world \<Rightarrow> ('h Core option \<times> error option) \<times> world)
     \<Rightarrow> service \<Rightarrow> task option \<Rightarrow> string \<Rightarrow> world \<Rightarrow> error option \<times> world" where
  "delete_gateway_by_id loadHost svc task gwid w =
     (if gwid \<noteq> []
      then (case loadHost task gwid w of
              ((rh, innerErr), w1) \<Rightarrow>
                (case unless_NotFound innerErr of
                   Some e \<Rightarrow> (Some e, w1)
                 | None \<Rightarrow>
                     (let stop = (innerErr \<noteq> None) in
                      if \<not> stop
                      then (case rh of
                              None \<Rightarrow> (None, w1)
                            | Some h \<Rightarrow>
                                (case deleteGateway svc task h w1 of
                                   (innerErr2, h', w2) \<Rightarrow> (unless_NotFound innerErr2, w2)))
                      else (None, w1))))
      else (None, w))"

text \<open>
  The deletion of the provider network, with the wait that follows a timeout.
  \<open>temporal.GetContextTimeout\<close> is not among the sources: it is the parameter
  \<open>contextTimeout\<close>, in seconds.
\<close>

definition delete_provider_network :: "nat \<Rightarrow> service \<Rightarrow> Network \<Rightarrow> world \<Rightarrow> error option \<times> world" where
  "delete_provider_network contextTimeout svc an w =
     (case svc_DeleteNetwork svc (ID an) w of
        (None, w1) \<Rightarrow> (None, w1)
      | (Some innerErr, w1) \<Rightarrow>
          (if has_tag ErrNotFound innerErr then (Some innerErr, w1)
           else if has_tag ErrTimeout innerErr
           then (case WhileUnsuccessfulDelay1Second
                        (\<lambda>(u::unit) w.
                           case svc_GetNetwork svc (ID an) w of
                             ((recNet, recErr), w') \<Rightarrow>
                               (if recNet \<noteq> None then (Some (GoError ''still there''), u, w')
                                else if (case recErr of None \<Rightarrow> False
                                         | Some e \<Rightarrow> has_tag ErrNotFound e)
                                then (None, u, w')
                                else (Some (Wrap recErr ''another kind of error''), u, w')))
                        contextTimeout () w1 of
                   (errWaitMore, u, w2) \<Rightarrow>
                     (Some (AddConsequence_in_place innerErr errWaitMore), w2))
           else (Some innerErr, w1)))"

text \<open>The callback that \<open>network.Delete\<close> hands to \<open>Alter\<close>.\<close>

definition network_Delete_callback ::
  "(task option \<Rightarrow> string \<Rightarrow> world \<Rightarrow> ('h Core option \<times> error option) \<times> world)
     \<Rightarrow> nat \<Rightarrow> service \<Rightarrow> task option \<Rightarrow> (Network, unit) Callback" where
  "network_Delete_callback loadHost contextTimeout svc task an props u w =
     (case JSONProperties_Inspect props HostsV1
             (\<lambda>clonable (s::unit). (attached_hosts_inspector an clonable, s)) () of
        (Some innerErr, s) \<Rightarrow> (Some innerErr, an, props, u, w)
      | (None, s) \<Rightarrow>
          (if (case task of None \<Rightarrow> False | Some t \<Rightarrow> task_status t = ABORTED)
           then (Some (AbortedError [] None), an, props, u, w)
           else (case delete_gateway_by_id loadHost svc task (GatewayID an) w of
                   (Some innerErr, w1) \<Rightarrow> (Some innerErr, an, props, u, w1)
                 | (None, w1) \<Rightarrow>
                     (case delete_gateway_by_id loadHost svc task (SecondaryGatewayID an) w1 of
                        (Some innerErr, w2) \<Rightarrow> (Some innerErr, an, props, u, w2)
                      | (None, w2) \<Rightarrow>
                          (let w3 = (case VIP an of
                                       None \<Rightarrow> w2
                                     | Some vip \<Rightarrow> snd (svc_DeleteVIP svc vip w2))
                           in case delete_provider_network contextTimeout svc an w3 of
                                (innerErr, w4) \<Rightarrow> (innerErr, an, props, u, w4))))))"

text \<open>\<open>network.Delete\<close>: the struct \<open>network\<close> is a core whose payload is a \<open>Network\<close>.\<close>

definition network_Delete ::
  "(task option \<Rightarrow> string \<Rightarrow> world \<Rightarrow> ('h Core option \<times> error option) \<times> world)
     \<Rightarrow> nat \<Rightarrow> Network iface \<Rightarrow> service \<Rightarrow> task option \<Rightarrow> Network Core \<Rightarrow> world
     \<Rightarrow> error option \<times> Network Core \<times> world" where
  "network_Delete loadHost contextTimeout ifc svc task objn w =
     (if IsNull (Some objn) then (Some InvalidInstanceError, objn, w)
      else if task = None then (Some (InvalidParameterError ''task'' ''cannot be nil''), objn, w)
      else (case Alter ifc task (Some (network_Delete_callback loadHost contextTimeout svc task))
                   objn () w of
              (Some xerr, objn', u, w') \<Rightarrow> (Some xerr, objn', w')
            | (None, objn', u, w') \<Rightarrow> Delete task objn' w'))"

subsection \<open>What the specification says of the failures of \<open>deleteGateway\<close>\<close>

text \<open>
  The specification's words: a \<open>NotFound\<close> at either step is a success, every other
  failure is accumulated. \<open>failures\<close> keeps, in order, the errors of a list of
  outcomes that are not a \<open>NotFound\<close>; \<open>cause_of\<close> is the error a wrapped error was
  made from.
\<close>

definition failures :: "error option list \<Rightarrow> error list" where
  "failures outcomes =
     concat (map (\<lambda>outcome. case outcome of
                               None \<Rightarrow> []
                             | Some e \<Rightarrow> if has_tag ErrNotFound e then [] else [e]) outcomes)"

definition cause_of :: "error \<Rightarrow> error option" where
  "cause_of e = (case as_Error e of None \<Rightarrow> None | Some c \<Rightarrow> Causer c)"

section \<open>A concrete network\<close>

text \<open>
  A network \<open>n1\<close> with one attached host \<open>h1\<close>, as the fifth scenario of the
  specification has it, with a toy codec in place of JSON: the bytes of a network
  are its id and its name, separated by a bar.
\<close>

definition demo_iface :: "Network iface" where
  "demo_iface =
     \<lparr>isSerializable = (\<lambda>n. True),
      isIdentifyable = (\<lambda>n. True),
      Serialize = (\<lambda>n. Inr (ID n @ ''|'' @ Name n)),
      Deserialize = (\<lambda>buf n. (None, n\<lparr>ID := takeWhile (\<lambda>ch. ch \<noteq> CHR ''|'') buf,
                                         Name := drop 1 (dropWhile (\<lambda>ch. ch \<noteq> CHR ''|'') buf)\<rparr>)),
      ident_SafeGetName = Name,
      ident_SafeGetID = ID,
      typeName = (\<lambda>n. ''*abstract.Network'')\<rparr>"

definition demo_network :: Network where
  "demo_network =
     \<lparr>ID = ''id1'', Name = ''n1'', CIDR = ''192.168.0.0/24'', Domain = [], GatewayID = ''gw1'',
      SecondaryGatewayID = [], VIP = None, IPVersion = IPv4, NetworkState = NETWORK_READY,
      Subnetworks = [], Subnet = False, Parent = []\<rparr>"

definition demo_hosts :: JSONProperties where
  "demo_hosts = [(''hosts.v1'', NetworkHostsV1 \<lparr>ByID = [(''h1'', ''h1'')], ByName = [(''h1'', ''h1'')]\<rparr>)]"

definition demo_core :: "Network Core" where
  "demo_core =
     \<lparr>kind = ''network'', shielded = Some demo_network, properties = Some demo_hosts,
      folder = Some ''networks'', core_name = Some ''n1'', core_id = Some ''id1''\<rparr>"

definition demo_world :: world where
  "demo_world =
     \<lparr>bucket = [((''networks'', ''byName'', ''n1''), ''id1|n1''),
                ((''networks'', ''byID'', ''id1''), ''id1|n1'')],
      faults = [], calls = []\<rparr>"

definition demo_task :: task where
  "demo_task = \<lparr>task_id = 1, task_status = RUNNING\<rparr>"

text \<open>A provider that answers every request with success, and one whose hosts cannot be deleted.\<close>

definition demo_service :: service where
  "demo_service =
     \<lparr>DeleteHost = (\<lambda>log i. None), DeleteVIP = (\<lambda>log vip. None),
      DeleteNetwork = (\<lambda>log i. None), GetNetwork = (\<lambda>log i. (None, Some (NotFoundError i)))\<rparr>"

definition failing_service :: service where
  "failing_service =
     \<lparr>DeleteHost = (\<lambda>log i. Some (GoError ''quota'')), DeleteVIP = (\<lambda>log vip. None),
      DeleteNetwork = (\<lambda>log i. None), GetNetwork = (\<lambda>log i. (None, Some (NotFoundError i)))\<rparr>"

text \<open>A callback that changes the name of its clone and fails.\<close>

definition failing_callback :: "(Network, unit) Callback" where
  "failing_callback an props u w = (Some (GoError ''refused''), an\<lparr>Name := ''n2''\<rparr>, props, u, w)"

text \<open>A callback that moves the network to another state and succeeds.\<close>

definition ready_callback :: "(Network, unit) Callback" where
  "ready_callback an props u w = (None, an\<lparr>NetworkState := GATEWAY_CREATION\<rparr>, props, u, w)"

section \<open>Properties of the error model\<close>

lemma conseq_loop_separated:
  "lenConseq = ind + length cs \<Longrightarrow> conseq_loop ind lenConseq cs = semicolon_separated cs"
proof (induction cs arbitrary: ind)
  case Nil
  then show ?case by simp
next
  case (Cons c rest)
  show ?case
  proof (cases rest)
    case Nil
    with Cons.prems show ?thesis by simp
  next
    case (Cons d ds)
    from Cons.prems have "lenConseq = (ind + 1) + length rest" by simp
    then have "conseq_loop (ind + 1) lenConseq rest = semicolon_separated rest"
      by (rule Cons.IH)
    with Cons.prems Cons show ?thesis by simp
  qed
qed

lemma errCore_Error_CauseFormatter:
  "errCore_Error jm sd e =
     Message e @ errCore_CauseFormatter jm sd e
     @ (if fields_len (Fields e) > 0
        then CHR 0x0A # ''With fields: '' @ errCore_FieldsFormatter jm e else [])"
  by (cases e) (simp add: errCore_CauseFormatter_def)

lemma errCore_Error_closed_form:
  "errCore_Error jm sd (ErrCore msg cause flds conseqs c) =
     msg
     @ (case cause of None \<Rightarrow> []
        | Some cs \<Rightarrow> '' [caused by {'' @ error_Error jm sd cs @ ''}]'')
     @ (if conseqs = [] then []
        else ''[with consequences {''
             @ semicolon_separated (map (error_Error jm sd) conseqs) @ ''}]'')
     @ (if fields_len flds = 0 then []
        else [CHR 0x0A] @ ''With fields: '' @ (case jm flds of None \<Rightarrow> [] | Some j \<Rightarrow> j))"
  by (simp add: conseq_loop_separated errCore_FieldsFormatter_def split: option.split)

text \<open>
  C8, as amended. For every error value that is a bare \<open>errCore\<close> or one of the typed
  errors built on an \<open>errCore\<close>, with message \<open>msg\<close>, cause, consequences and fields,
  the string \<open>Error()\<close> gives is \<open>msg\<close>, followed by \<open> [caused by {<cause>}]\<close> exactly
  when a cause is present, followed by \<open>[with consequences {c1;c2;...}]\<close> (semicolons
  between the consequences) exactly when the list of consequences is not empty,
  followed by a line feed and \<open>With fields: \<close> and the JSON text of the fields exactly
  when the fields map is not empty (nothing follows \<open>With fields: \<close> when the
  marshalling fails). The string of a cause or of a consequence is its own
  \<open>Error()\<close>. An \<open>ErrList\<close> does not follow the format: its string is the dump of its
  list of errors, whatever its message, cause, consequences and fields are.
\<close>

theorem error_Error_format:
  "(err = Bare (ErrCore msg cause flds conseqs c) \<or> err = Typed t (ErrCore msg cause flds conseqs c)
      \<longrightarrow> error_Error jm sd err =
            msg
            @ (case cause of None \<Rightarrow> []
               | Some cs \<Rightarrow> '' [caused by {'' @ error_Error jm sd cs @ ''}]'')
            @ (if conseqs = [] then []
               else ''[with consequences {''
                    @ semicolon_separated (map (error_Error jm sd) conseqs) @ ''}]'')
            @ (if fields_len flds = 0 then []
               else [CHR 0x0A] @ ''With fields: '' @ (case jm flds of None \<Rightarrow> [] | Some j \<Rightarrow> j)))
   \<and> error_Error jm sd (ErrList e es) = sd es"
proof (intro conjI impI)
  assume "err = Bare (ErrCore msg cause flds conseqs c) \<or> err = Typed t (ErrCore msg cause flds conseqs c)"
  then have "error_Error jm sd err = errCore_Error jm sd (ErrCore msg cause flds conseqs c)"
    by auto
  then show "error_Error jm sd err =
            msg
            @ (case cause of None \<Rightarrow> []
               | Some cs \<Rightarrow> '' [caused by {'' @ error_Error jm sd cs @ ''}]'')
            @ (if conseqs = [] then []
               else ''[with consequences {''
                    @ semicolon_separated (map (error_Error jm sd) conseqs) @ ''}]'')
            @ (if fields_len flds = 0 then []
               else [CHR 0x0A] @ ''With fields: '' @ (case jm flds of None \<Rightarrow> [] | Some j \<Rightarrow> j))"
    by (simp only: errCore_Error_closed_form)
next
  show "error_Error jm sd (ErrList e es) = sd es" by simp
qed

text \<open>
  The amended C8 at a \<open>NotFound\<close> error with a cause, two consequences and one
  field, and at the same error with neither cause, consequences nor fields.
\<close>

theorem error_Error_format_witness:
  "error_Error (\<lambda>f. Some ''{k:v}'') (\<lambda>es. ''dump'')
       (Typed ErrNotFound
          (ErrCore ''gone'' (Some (GoError ''disk'')) (Some [(''k'', ''v'')])
             [GoError ''c1'', NotFoundError ''c2''] CodeNotFound))
     = ''gone [caused by {disk}][with consequences {c1;c2}]'' @ [CHR 0x0A] @ ''With fields: {k:v}''
   \<and> error_Error (\<lambda>f. Some ''{k:v}'') (\<lambda>es. ''dump'') (NotFoundError ''gone'') = ''gone''"
  using error_Error_format
      [of "Typed ErrNotFound
             (ErrCore ''gone'' (Some (GoError ''disk'')) (Some [(''k'', ''v'')])
                [GoError ''c1'', NotFoundError ''c2''] CodeNotFound)"
          "''gone''" "Some (GoError ''disk'')" "Some [(''k'', ''v'')]"
          "[GoError ''c1'', NotFoundError ''c2'']" CodeNotFound ErrNotFound
          "\<lambda>f. Some ''{k:v}''" "\<lambda>es. ''dump''"]
    error_Error_format
      [of "NotFoundError ''gone''" "''gone''" None "Some []" "[]" CodeNotFound ErrNotFound
          "\<lambda>f. Some ''{k:v}''" "\<lambda>es. ''dump''"]
  by (simp add: NotFoundError_def fields_len_def)

text \<open>
  C8, as the claim states it, fails twice. For a \<open>NotFound\<close> error with one field the
  code writes a line feed between the message and \<open>With fields: \<close>, which the
  claimed format does not have. For an \<open>ErrList\<close>, whose embedded \<open>errCore\<close> is
  empty, the code gives the dump of the list where the claimed format gives the
  empty string.
\<close>

theorem claimed_Error_counterexample:
  "error_Error (\<lambda>f. Some ''{k:v}'') (\<lambda>es. ''dump'')
       (Typed ErrNotFound (ErrCore ''boom'' None (Some [(''k'', ''v'')]) [] CodeNotFound))
     \<noteq> claimed_Error (\<lambda>f. Some ''{k:v}'') (\<lambda>es. ''dump'')
       (ErrCore ''boom'' None (Some [(''k'', ''v'')]) [] CodeNotFound)
   \<and> as_Error (ErrList (ErrCore [] None None [] OK) [GoError ''x''])
       = Some (ErrCore [] None None [] OK)
   \<and> ErrListError [GoError ''x''] = Some (ErrList (ErrCore [] None None [] OK) [GoError ''x''])
   \<and> error_Error (\<lambda>f. Some ''{k:v}'') (\<lambda>es. ''dump'')
       (ErrList (ErrCore [] None None [] OK) [GoError ''x''])
     \<noteq> claimed_Error (\<lambda>f. Some ''{k:v}'') (\<lambda>es. ''dump'') (ErrCore [] None None [] OK)"
  by (simp add: claimed_Error_def fields_len_def errCore_FieldsFormatter_def ErrListError_def)

text \<open>
  C10, as amended. The method \<open>AddConsequence\<close> of every \<open>errCore\<close>, and the function
  \<open>AddConsequence\<close> of the package on every error that implements \<open>scerr.Error\<close>
  (every error built on an \<open>errCore\<close>): with a nil consequence the error is returned
  as it is, with its consequences as they were; with a consequence \<open>x\<close> the returned
  error is the error's \<open>errCore\<close> with \<open>x\<close> appended at the end of the consequences,
  and the message and the cause (and the fields and the code) are those of the
  receiving error. On an error that does not implement \<open>scerr.Error\<close> the function
  returns the error as it is and the consequence is dropped.
\<close>

theorem AddConsequence_appends:
  "errCore_AddConsequence e None = e
   \<and> consequences (errCore_AddConsequence e (Some x)) = consequences e @ [x]
   \<and> Message (errCore_AddConsequence e (Some x)) = Message e
   \<and> Causer (errCore_AddConsequence e (Some x)) = Causer e
   \<and> AddConsequence (Some err) None = Some err
   \<and> Consequences (AddConsequence (Some err) None) = Consequences (Some err)
   \<and> (as_Error err = Some e \<longrightarrow>
        AddConsequence (Some err) (Some x)
          = Some (Bare (ErrCore (Message e) (Causer e) (Fields e) (consequences e @ [x]) (grpcCode e)))
        \<and> as_Error (AddConsequence_in_place err (Some x))
          = Some (ErrCore (Message e) (Causer e) (Fields e) (consequences e @ [x]) (grpcCode e)))
   \<and> (as_Error err = None \<longrightarrow>
        AddConsequence (Some err) cons = Some err
        \<and> Consequences (AddConsequence (Some err) cons) = [])"
  by (cases err) (auto simp: errCore_AddConsequence_def AddConsequence_def Consequences_def
                       split: option.splits)

text \<open>
  The amended C10 at a \<open>NotFound\<close> error that already has one consequence: the new
  one comes after it. And at a plain error, which is returned as it is.
\<close>

theorem AddConsequence_appends_witness:
  "as_Error (Typed ErrNotFound (ErrCore ''gone'' None (Some []) [GoError ''first''] CodeNotFound))
     = Some (ErrCore ''gone'' None (Some []) [GoError ''first''] CodeNotFound)
   \<and> AddConsequence
         (Some (Typed ErrNotFound (ErrCore ''gone'' None (Some []) [GoError ''first''] CodeNotFound)))
         (Some (GoError ''second''))
       = Some (Bare (ErrCore ''gone'' None (Some []) [GoError ''first'', GoError ''second'']
                       CodeNotFound))
   \<and> AddConsequence
         (Some (Typed ErrNotFound (ErrCore ''gone'' None (Some []) [GoError ''first''] CodeNotFound)))
         None
       = Some (Typed ErrNotFound (ErrCore ''gone'' None (Some []) [GoError ''first''] CodeNotFound))
   \<and> as_Error (GoError ''boom'') = None
   \<and> AddConsequence (Some (GoError ''boom'')) None = Some (GoError ''boom'')"
  using AddConsequence_appends
      [of "ErrCore ''gone'' None (Some []) [GoError ''first''] CodeNotFound" "GoError ''second''"
          "Typed ErrNotFound (ErrCore ''gone'' None (Some []) [GoError ''first''] CodeNotFound)"]
    AddConsequence_appends
      [of "ErrCore ''gone'' None (Some []) [GoError ''first''] CodeNotFound" "GoError ''second''"
          "GoError ''boom''" None]
  by simp

text \<open>
  C10, as the claim states it, fails: it speaks of every error, and the function of
  the package, given a plain Go error and a consequence, appends nothing. It logs
  the failure and returns the error it was given, which has no consequences.
\<close>

theorem AddConsequence_plain_error_counterexample:
  "AddConsequence (Some (GoError ''boom'')) (Some (GoError ''cleanup failed''))
     = Some (GoError ''boom'')
   \<and> Consequences (AddConsequence (Some (GoError ''boom'')) (Some (GoError ''cleanup failed'')))
     = []"
  by (simp add: AddConsequence_def Consequences_def)

section \<open>Properties of the core\<close>

lemmas demo_defs = demo_iface_def demo_network_def demo_hosts_def demo_core_def demo_world_def
  demo_task_def demo_service_def failing_service_def failing_callback_def ready_callback_def

lemmas folder_defs = folder_Read_def folder_Write_def folder_Search_def folder_Delete_def
  folder_Browse_def next_fault_def byIDFolderName_def byNameFolderName_def

subsection \<open>Reading leaves the bucket and the provider alone\<close>

lemma populate_properties_nonnull:
  "\<exists>props. populate_properties c = Inr (c\<lparr>properties := Some props\<rparr>, props)"
  by (cases c) (auto simp: populate_properties_def NewJSONProperties_def split: option.splits)

lemma next_fault_keeps:
  "next_fault w = (f, w') \<Longrightarrow> bucket w' = bucket w \<and> calls w' = calls w"
  by (auto simp: next_fault_def split: list.splits)

lemma folder_Read_keeps:
  "folder_Read f sub key d s w = (r, s', w') \<Longrightarrow> bucket w' = bucket w \<and> calls w' = calls w"
  by (auto simp: folder_Read_def split: option.splits prod.splits dest: next_fault_keeps)

lemma readByID_keeps:
  assumes "readByID ifc task i c w = (r, c', w')"
  shows "bucket w' = bucket w \<and> calls w' = calls w"
  using assms
  by (auto simp: readByID_def Shielded_Alter_def split: option.splits prod.splits if_splits
           dest: folder_Read_keeps)

lemma Reload_keeps:
  assumes "Reload ifc task c w = (r, c', w')"
  shows "bucket w' = bucket w \<and> calls w' = calls w"
  using assms
  by (auto simp: Reload_def split: option.splits prod.splits if_splits dest: readByID_keeps)

lemma readByID_success:
  assumes "readByID ifc task i c w = (None, c', w')"
  shows "\<exists>p. shielded c' = Some p"
  using assms
  by (auto simp: readByID_def Shielded_Alter_def split: option.splits prod.splits if_splits)

lemma Reload_success:
  assumes "Reload ifc task c w = (None, c', w')"
  shows "\<exists>p. shielded c' = Some p"
  using assms
  by (auto simp: Reload_def split: option.splits prod.splits if_splits dest: readByID_success)

lemma demo_Reload:
  "Reload demo_iface (Some demo_task) demo_core demo_world = (None, demo_core, demo_world)"
  by (simp add: Reload_def readByID_def Shielded_Alter_def IsNull_def SafeGetID_def demo_defs folder_defs)

subsection \<open>\<open>Read\<close> on an instance that carries a payload\<close>

text \<open>
  C9, as amended. \<open>Core.Read\<close> on an instance that already carries a payload fails
  before any access to the object storage, and leaves the instance (its payload and
  its cached identity) and the world as they were. The error is
  \<open>NotAvailable("metadata is already carrying a value")\<close> when the instance is not
  null, the task is not nil and the reference is not empty; the checks of the
  instance, of the task and of the reference come first, and give
  \<open>InvalidInstance\<close> for a null instance and \<open>InvalidParameter\<close> for a nil task or
  an empty reference.
\<close>

theorem Read_already_carrying:
  "shielded c = Some p \<longrightarrow>
     (\<exists>e. Read ifc task ref c w = (Some e, c, w))
     \<and> (\<not> IsNull (Some c) \<and> task \<noteq> None \<and> ref \<noteq> [] \<longrightarrow>
          Read ifc task ref c w
            = (Some (NotAvailableError ''metadata is already carrying a value''), c, w))
     \<and> (IsNull (Some c) \<longrightarrow> Read ifc task ref c w = (Some InvalidInstanceError, c, w))
     \<and> (\<not> IsNull (Some c) \<and> task = None \<longrightarrow>
          Read ifc task ref c w = (Some (InvalidParameterError ''task'' ''cannot be nil''), c, w))
     \<and> (\<not> IsNull (Some c) \<and> task \<noteq> None \<and> ref = [] \<longrightarrow>
          Read ifc task ref c w
            = (Some (InvalidParameterError ''ref'' ''cannot be empty string''), c, w))"
  by (simp add: Read_def)

text \<open>The amended C9 at the network \<open>n1\<close>, which carries its payload.\<close>

theorem Read_already_carrying_witness:
  "shielded demo_core = Some demo_network
   \<and> \<not> IsNull (Some demo_core)
   \<and> Read demo_iface (Some demo_task) ''n1'' demo_core demo_world
       = (Some (NotAvailableError ''metadata is already carrying a value''), demo_core, demo_world)
   \<and> Read demo_iface None ''n1'' demo_core demo_world
       = (Some (InvalidParameterError ''task'' ''cannot be nil''), demo_core, demo_world)
   \<and> Read demo_iface (Some demo_task) [] demo_core demo_world
       = (Some (InvalidParameterError ''ref'' ''cannot be empty string''), demo_core, demo_world)
   \<and> IsNull (Some (demo_core\<lparr>kind := ''nil''\<rparr>))
   \<and> Read demo_iface (Some demo_task) ''n1'' (demo_core\<lparr>kind := ''nil''\<rparr>) demo_world
       = (Some InvalidInstanceError, demo_core\<lparr>kind := ''nil''\<rparr>, demo_world)"
  using Read_already_carrying [of demo_core demo_network demo_iface "Some demo_task" "''n1''" demo_world]
    Read_already_carrying [of demo_core demo_network demo_iface None "''n1''" demo_world]
    Read_already_carrying [of demo_core demo_network demo_iface "Some demo_task" "[]" demo_world]
    Read_already_carrying [of "demo_core\<lparr>kind := ''nil''\<rparr>" demo_network demo_iface
      "Some demo_task" "''n1''" demo_world]
  by (simp add: IsNull_def demo_core_def)

text \<open>
  C9, as the claim states it, fails: on the network \<open>n1\<close>, which carries its
  payload, \<open>Read\<close> with a nil task answers \<open>InvalidParameter\<close> for the task, and
  \<open>Read\<close> with an empty reference answers \<open>InvalidParameter\<close> for the reference.
  Neither is a \<open>NotAvailable\<close>.
\<close>

theorem Read_nil_task_counterexample:
  "shielded demo_core = Some demo_network
   \<and> Read demo_iface None ''n1'' demo_core demo_world
       = (Some (InvalidParameterError ''task'' ''cannot be nil''), demo_core, demo_world)
   \<and> \<not> has_tag ErrNotAvailable (InvalidParameterError ''task'' ''cannot be nil'')
   \<and> Read demo_iface (Some demo_task) [] demo_core demo_world
       = (Some (InvalidParameterError ''ref'' ''cannot be empty string''), demo_core, demo_world)
   \<and> \<not> has_tag ErrNotAvailable (InvalidParameterError ''ref'' ''cannot be empty string'')"
  by (simp add: Read_def IsNull_def InvalidParameterError_def demo_core_def)

subsection \<open>\<open>Alter\<close> when the callback fails\<close>

lemma Alter_stops_at_callback_error:
  assumes "\<not> IsNull (Some c)" and "task = Some t"
    and "populate_properties c = Inr (c1, props)"
    and "Reload ifc task c1 w = (None, c2, w2)"
    and "shielded c2 = Some p"
    and "cb p props u w2 = (Some e, p', props', u', w3)"
  shows "Alter ifc task (Some cb) c u w = (Some e, c2\<lparr>properties := Some props'\<rparr>, u', w3)
         \<and> shielded (c2\<lparr>properties := Some props'\<rparr>) = Some p
         \<and> bucket w2 = bucket w"
proof -
  have "c2\<lparr>shielded := Some p, properties := Some props'\<rparr> = c2\<lparr>properties := Some props'\<rparr>"
    using assms(5) by (cases c2) simp
  moreover have "bucket w2 = bucket w"
    using Reload_keeps [OF assms(4)] by simp
  ultimately show ?thesis
    using assms by (simp add: Alter_def Shielded_Alter_def)
qed

lemma Alter_failing_callback:
  assumes "\<And>p pr u w. fst (cb p pr u w) \<noteq> None
                       \<and> bucket (snd (snd (snd (snd (cb p pr u w))))) = bucket w"
  shows "fst (Alter ifc task (Some cb) c u w) \<noteq> None
         \<and> bucket (snd (snd (snd (Alter ifc task (Some cb) c u w)))) = bucket w"
proof (cases "IsNull (Some c) \<or> task = None")
  case True
  then show ?thesis by (auto simp: Alter_def)
next
  case False
  then obtain t where n: "\<not> IsNull (Some c)" and t: "task = Some t" by auto
  obtain props where p: "populate_properties c = Inr (c\<lparr>properties := Some props\<rparr>, props)"
    using populate_properties_nonnull by blast
  obtain r c2 w2 where r: "Reload ifc task (c\<lparr>properties := Some props\<rparr>) w = (r, c2, w2)"
    by (cases "Reload ifc task (c\<lparr>properties := Some props\<rparr>) w") auto
  have k: "bucket w2 = bucket w" using Reload_keeps [OF r] by simp
  show ?thesis
  proof (cases r)
    case (Some err)
    then show ?thesis using n t p r k by (simp add: Alter_def)
  next
    case None
    with r have r': "Reload ifc task (c\<lparr>properties := Some props\<rparr>) w = (None, c2, w2)" by simp
    from Reload_success [OF r'] obtain pl where pl: "shielded c2 = Some pl" by blast
    obtain x p' props' u' w3 where cbv: "cb pl props u w2 = (x, p', props', u', w3)"
      by (cases "cb pl props u w2") auto
    from assms [of pl props u w2] cbv obtain e where e: "x = Some e" and b: "bucket w3 = bucket w2"
      by auto
    from Alter_stops_at_callback_error [where cb = cb, OF n t p r' pl cbv [unfolded e]]
    have "Alter ifc task (Some cb) c u w = (Some e, c2\<lparr>properties := Some props'\<rparr>, u', w3)"
      by simp
    then show ?thesis using b k by simp
  qed
qed

text \<open>
  C2. When \<open>Alter\<close> has reloaded the payload (the instance is not null, the task is
  not nil, and \<open>Reload\<close> gave the payload \<open>p\<close> in the world \<open>w2\<close>) and the callback,
  run on \<open>p\<close>, returns the error \<open>e\<close>, then \<open>Alter\<close> returns \<open>e\<close>; the world it returns
  is the one the callback left, so nothing is written after the callback; the
  payload in memory is the reloaded one; and \<open>Reload\<close> itself changed no object. And
  for every instance and task: with a callback that fails whenever it is called and
  writes no object itself, \<open>Alter\<close> returns an error and every object, so the entries
  under \<open>byID\<close> and under \<open>byName\<close>, holds the bytes it held before.
\<close>

theorem Alter_callback_error:
  "(\<not> IsNull (Some c) \<and> task = Some t \<and> populate_properties c = Inr (c1, props)
      \<and> Reload ifc task c1 w = (None, c2, w2) \<and> shielded c2 = Some p
      \<and> cb p props u w2 = (Some e, p', props', u', w3)
    \<longrightarrow> Alter ifc task (Some cb) c u w = (Some e, c2\<lparr>properties := Some props'\<rparr>, u', w3)
        \<and> shielded (c2\<lparr>properties := Some props'\<rparr>) = Some p
        \<and> bucket w2 = bucket w)
   \<and> ((\<forall>p pr u w. fst (cb p pr u w) \<noteq> None
                    \<and> bucket (snd (snd (snd (snd (cb p pr u w))))) = bucket w)
    \<longrightarrow> fst (Alter ifc task (Some cb) c u w) \<noteq> None
        \<and> bucket (snd (snd (snd (Alter ifc task (Some cb) c u w)))) = bucket w)"
proof (intro conjI impI)
  assume "\<forall>p pr u w. fst (cb p pr u w) \<noteq> None
                    \<and> bucket (snd (snd (snd (snd (cb p pr u w))))) = bucket w"
  then have a: "\<And>p pr u w. fst (cb p pr u w) \<noteq> None
                    \<and> bucket (snd (snd (snd (snd (cb p pr u w))))) = bucket w"
    by blast
  from Alter_failing_callback [of cb ifc task c u w, OF a]
  show "fst (Alter ifc task (Some cb) c u w) \<noteq> None"
    and "bucket (snd (snd (snd (Alter ifc task (Some cb) c u w)))) = bucket w"
    by simp_all
next
  assume h: "\<not> IsNull (Some c) \<and> task = Some t \<and> populate_properties c = Inr (c1, props)
      \<and> Reload ifc task c1 w = (None, c2, w2) \<and> shielded c2 = Some p
      \<and> cb p props u w2 = (Some e, p', props', u', w3)"
  from h have h1: "\<not> IsNull (Some c)" and h2: "task = Some t"
    and h3: "populate_properties c = Inr (c1, props)"
    and h4: "Reload ifc task c1 w = (None, c2, w2)" and h5: "shielded c2 = Some p"
    and h6: "cb p props u w2 = (Some e, p', props', u', w3)"
    by blast+
  have r: "Alter ifc task (Some cb) c u w = (Some e, c2\<lparr>properties := Some props'\<rparr>, u', w3)
         \<and> shielded (c2\<lparr>properties := Some props'\<rparr>) = Some p
         \<and> bucket w2 = bucket w"
    by (rule Alter_stops_at_callback_error [where cb = cb, OF h1 h2 h3 h4 h5 h6])
  from r show "Alter ifc task (Some cb) c u w = (Some e, c2\<lparr>properties := Some props'\<rparr>, u', w3)"
    by simp
  from r show "shielded (c2\<lparr>properties := Some props'\<rparr>) = Some p" by simp
  from r show "bucket w2 = bucket w" by simp
qed

text \<open>
  C2 at the network \<open>n1\<close> with a callback that renames its clone and fails: the
  error comes back, and the instance and the world are as before.
\<close>

theorem Alter_callback_error_witness:
  "Alter demo_iface (Some demo_task) (Some failing_callback) demo_core () demo_world
     = (Some (GoError ''refused''), demo_core, (), demo_world)
   \<and> bucket demo_world
       = [((''networks'', ''byName'', ''n1''), ''id1|n1''), ((''networks'', ''byID'', ''id1''), ''id1|n1'')]
   \<and> (\<forall>p pr u w. fst (failing_callback p pr u w) \<noteq> None
                    \<and> bucket (snd (snd (snd (snd (failing_callback p pr u w))))) = bucket w)
   \<and> fst (Alter demo_iface None (Some failing_callback) demo_core () demo_world) \<noteq> None
   \<and> bucket (snd (snd (snd (Alter demo_iface None (Some failing_callback) demo_core () demo_world))))
       = bucket demo_world"
proof -
  have f: "\<forall>p pr u w. fst (failing_callback p pr u w) \<noteq> None
                    \<and> bucket (snd (snd (snd (snd (failing_callback p pr u w))))) = bucket w"
    by (simp add: failing_callback_def)
  have a: "\<not> IsNull (Some demo_core) \<and> Some demo_task = Some demo_task
         \<and> populate_properties demo_core = Inr (demo_core, demo_hosts)
         \<and> Reload demo_iface (Some demo_task) demo_core demo_world = (None, demo_core, demo_world)
         \<and> shielded demo_core = Some demo_network
         \<and> failing_callback demo_network demo_hosts () demo_world
             = (Some (GoError ''refused''), demo_network\<lparr>Name := ''n2''\<rparr>, demo_hosts, (), demo_world)"
    using demo_Reload
    by (simp add: IsNull_def populate_properties_def demo_core_def failing_callback_def)
  have c: "demo_core\<lparr>properties := Some demo_hosts\<rparr> = demo_core"
    by (simp add: demo_core_def)
  show ?thesis
    using Alter_callback_error [of demo_core "Some demo_task" demo_task demo_core demo_hosts
        demo_iface demo_world demo_core demo_world demo_network failing_callback "()"
        "GoError ''refused''" "demo_network\<lparr>Name := ''n2''\<rparr>" demo_hosts "()" demo_world]
      Alter_callback_error [of demo_core None demo_task demo_core demo_hosts
        demo_iface demo_world demo_core demo_world demo_network failing_callback "()"
        "GoError ''refused''" "demo_network\<lparr>Name := ''n2''\<rparr>" demo_hosts "()" demo_world]
      f a c
    by (simp add: demo_world_def)
qed

subsection \<open>The write path\<close>

lemma folder_Write_success:
  assumes "folder_Write f sub key buf w = (None, w')"
  shows "\<exists>path. f = Some path
           \<and> map_of (bucket w') = (map_of (bucket w))((path, sub, key) \<mapsto> buf)"
  using assms
  by (auto simp: folder_Write_def update_conv' split: option.splits prod.splits
           dest: next_fault_keeps)

lemma Core_write_success:
  assumes "Core_write ifc task c w = (None, w')"
  shows "\<exists>p buf path. shielded c = Some p \<and> folder c = Some path \<and> Serialize ifc p = Inr buf
           \<and> map_of (bucket w') (path, byIDFolderName, ident_SafeGetID ifc p) = Some buf
           \<and> map_of (bucket w') (path, byNameFolderName, ident_SafeGetName ifc p) = Some buf"
proof -
  from assms obtain p where p: "shielded c = Some p"
    by (auto simp: Core_write_def Shielded_Inspect_def InvalidInstanceError_def split: option.splits)
  from assms p obtain buf where buf: "Serialize ifc p = Inr buf"
    by (auto simp: Core_write_def Shielded_Inspect_def split: if_splits sum.splits)
  from assms p buf obtain w1 where
    w1: "folder_Write (folder c) byNameFolderName (ident_SafeGetName ifc p) buf w = (None, w1)"
    and w2: "folder_Write (folder c) byIDFolderName (ident_SafeGetID ifc p) buf w1 = (None, w')"
    by (auto simp: Core_write_def Shielded_Inspect_def split: if_splits prod.splits option.splits)
  from folder_Write_success [OF w1] folder_Write_success [OF w2] obtain path where
    "folder c = Some path"
    and "map_of (bucket w1) = (map_of (bucket w))((path, byNameFolderName, ident_SafeGetName ifc p) \<mapsto> buf)"
    and "map_of (bucket w') = (map_of (bucket w1))((path, byIDFolderName, ident_SafeGetID ifc p) \<mapsto> buf)"
    by auto
  then show ?thesis using p buf
    by (auto simp: byIDFolderName_def byNameFolderName_def)
qed

text \<open>
  C3. After every \<open>Alter\<close> that returns nil, and after every \<open>Carry\<close> that returns
  nil, the instance carries a payload \<open>p\<close>, and the object under \<open>byID\<close> and the id
  of \<open>p\<close> and the object under \<open>byName\<close> and the name of \<open>p\<close> both hold the same
  bytes, the one serialisation \<open>buf\<close> of \<open>p\<close>.
\<close>

theorem write_path_same_bytes:
  "(Alter ifc task cb c u w = (None, c', u', w') \<longrightarrow>
      (\<exists>p buf path. shielded c' = Some p \<and> folder c' = Some path \<and> Serialize ifc p = Inr buf
         \<and> map_of (bucket w') (path, byIDFolderName, ident_SafeGetID ifc p) = Some buf
         \<and> map_of (bucket w') (path, byNameFolderName, ident_SafeGetName ifc p) = Some buf))
   \<and> (Carry ifc task clonable c w = (None, c', w') \<longrightarrow>
      (\<exists>p buf path. shielded c' = Some p \<and> folder c' = Some path \<and> Serialize ifc p = Inr buf
         \<and> map_of (bucket w') (path, byIDFolderName, ident_SafeGetID ifc p) = Some buf
         \<and> map_of (bucket w') (path, byNameFolderName, ident_SafeGetName ifc p) = Some buf))"
proof (intro conjI impI)
  assume a: "Alter ifc task cb c u w = (None, c', u', w')"
  then obtain w3 where "Core_write ifc task c' w3 = (None, w')"
    by (auto simp: Alter_def split: if_splits option.splits sum.splits prod.splits)
  then show "\<exists>p buf path. shielded c' = Some p \<and> folder c' = Some path \<and> Serialize ifc p = Inr buf
         \<and> map_of (bucket w') (path, byIDFolderName, ident_SafeGetID ifc p) = Some buf
         \<and> map_of (bucket w') (path, byNameFolderName, ident_SafeGetName ifc p) = Some buf"
    by (rule Core_write_success)
next
  assume a: "Carry ifc task clonable c w = (None, c', w')"
  then have "Core_write ifc task c' w = (None, w')"
    by (auto simp: Carry_def split: if_splits option.splits sum.splits prod.splits)
  then show "\<exists>p buf path. shielded c' = Some p \<and> folder c' = Some path \<and> Serialize ifc p = Inr buf
         \<and> map_of (bucket w') (path, byIDFolderName, ident_SafeGetID ifc p) = Some buf
         \<and> map_of (bucket w') (path, byNameFolderName, ident_SafeGetName ifc p) = Some buf"
    by (rule Core_write_success)
qed

text \<open>
  C3 at the network \<open>n1\<close>: a \<open>Carry\<close> into an empty bucket writes the two entries of
  \<open>n1\<close>, and an \<open>Alter\<close> that moves the network to another state succeeds and leaves
  the same bytes under both.
\<close>

theorem write_path_same_bytes_witness:
  "Alter demo_iface (Some demo_task) (Some ready_callback) demo_core () demo_world
     = (None, demo_core\<lparr>shielded := Some (demo_network\<lparr>NetworkState := GATEWAY_CREATION\<rparr>)\<rparr>, (), demo_world)
   \<and> map_of (bucket demo_world) (''networks'', ''byID'', ''id1'') = Some ''id1|n1''
   \<and> map_of (bucket demo_world) (''networks'', ''byName'', ''n1'') = Some ''id1|n1''
   \<and> Carry demo_iface (Some demo_task) (Some demo_network)
        \<lparr>kind = ''network'', shielded = None, properties = Some demo_hosts,
         folder = Some ''networks'', core_name = None, core_id = None\<rparr>
        \<lparr>bucket = [], faults = [], calls = []\<rparr>
       = (None, demo_core, demo_world)"
  using write_path_same_bytes [of demo_iface "Some demo_task" "Some ready_callback" demo_core "()"
      demo_world "demo_core\<lparr>shielded := Some (demo_network\<lparr>NetworkState := GATEWAY_CREATION\<rparr>)\<rparr>" "()"
      demo_world "Some demo_network"]
    demo_Reload
  by (simp add: Alter_def Carry_def Core_write_def updateIdentity_def Shielded_Alter_def
        Shielded_Inspect_def populate_properties_def IsNull_def demo_defs folder_defs)

subsection \<open>After \<open>Delete\<close>\<close>

lemma Shielded_Alter_None [simp]:
  "Shielded_Alter None f s = (Some InvalidInstanceError, None, s)"
  by (simp add: Shielded_Alter_def)

lemma readByID_null_carrier:
  "shielded c = None \<Longrightarrow> readByID ifc task i c w = (Some InvalidInstanceError, c, w)"
  by (cases c) (simp add: readByID_def)

lemma InvalidInstance_tags [simp]:
  "\<not> has_tag ErrNotFound InvalidInstanceError"
  "has_tag ErrInvalidInstance InvalidInstanceError"
  "has_tag RetryErrStopRetry (StopRetryError e)"
  "\<not> has_tag RetryErrTimeout (StopRetryError e)"
  by (simp_all add: InvalidInstanceError_def StopRetryError_def)

lemma Reload_after_nulling:
  assumes "\<not> IsNull (Some c)" and "task = Some t" and "shielded c = None"
  shows "Reload ifc task c w = (Some InvalidInstanceError, c, w)"
  using assms by (simp add: Reload_def readByID_null_carrier)

lemma Inspect_after_nulling:
  assumes "\<not> IsNull (Some c)" and "task = Some t" and "shielded c = None"
  shows "fst (Inspect ifc task (Some cb) c u w) = Some InvalidInstanceError"
proof -
  obtain props where p: "populate_properties c = Inr (c\<lparr>properties := Some props\<rparr>, props)"
    using populate_properties_nonnull by blast
  have n: "\<not> IsNull (Some (c\<lparr>properties := Some props\<rparr>))"
    using assms(1) by (simp add: IsNull_def)
  have "Reload ifc task (c\<lparr>properties := Some props\<rparr>) w
          = (Some InvalidInstanceError, c\<lparr>properties := Some props\<rparr>, w)"
    using n assms by (intro Reload_after_nulling) simp_all
  then show ?thesis using assms p by (simp add: Inspect_def)
qed

lemma Alter_after_nulling:
  assumes "\<not> IsNull (Some c)" and "task = Some t" and "shielded c = None"
  shows "fst (Alter ifc task (Some cb) c u w) = Some InvalidInstanceError"
proof -
  obtain props where p: "populate_properties c = Inr (c\<lparr>properties := Some props\<rparr>, props)"
    using populate_properties_nonnull by blast
  have n: "\<not> IsNull (Some (c\<lparr>properties := Some props\<rparr>))"
    using assms(1) by (simp add: IsNull_def)
  have "Reload ifc task (c\<lparr>properties := Some props\<rparr>) w
          = (Some InvalidInstanceError, c\<lparr>properties := Some props\<rparr>, w)"
    using n assms by (intro Reload_after_nulling) simp_all
  then show ?thesis using assms p by (simp add: Alter_def)
qed

lemma Delete_success:
  assumes "Delete task c w = (None, c', w')"
  shows "c' = c\<lparr>shielded := None\<rparr> \<and> \<not> IsNull (Some c) \<and> task \<noteq> None"
  using assms
  by (auto simp: Delete_def Let_def split: if_splits prod.splits option.splits)

lemma demo_Delete:
  "Delete (Some demo_task) demo_core demo_world
     = (None, demo_core\<lparr>shielded := None\<rparr>, \<lparr>bucket = [], faults = [], calls = []\<rparr>)"
  by (simp add: Delete_def Let_def IsNull_def SafeGetID_def SafeGetName_def unless_NotFound_def
        demo_defs folder_defs)

text \<open>
  C6, as amended. After a \<open>Delete\<close> that returns nil the carrier is nil, and every
  later \<open>Inspect\<close> or \<open>Alter\<close> with a task and a callback that are not nil, and every
  later \<open>Reload\<close> with a task that is not nil, reports \<open>InvalidInstance\<close>, in whatever
  state the world is.
\<close>

theorem Delete_nulls_carrier:
  assumes "Delete task c w = (None, c', w')" and "task2 = Some t2"
  shows "shielded c' = None
         \<and> fst (Inspect ifc task2 (Some cb) c' u w2) = Some InvalidInstanceError
         \<and> fst (Alter ifc task2 (Some cb) c' u w2) = Some InvalidInstanceError
         \<and> fst (Reload ifc task2 c' w2) = Some InvalidInstanceError"
proof -
  from Delete_success [OF assms(1)] have c': "c' = c\<lparr>shielded := None\<rparr>" and n: "\<not> IsNull (Some c)"
    by simp_all
  from n c' have n': "\<not> IsNull (Some c')" by (simp add: IsNull_def)
  have s: "shielded c' = None" using c' by simp
  show ?thesis
    by (simp add: s Inspect_after_nulling [OF n' assms(2) s] Alter_after_nulling [OF n' assms(2) s]
          Reload_after_nulling [OF n' assms(2) s])
qed

text \<open>The amended C6 at the network \<open>n1\<close>, deleted from the bucket that holds its two entries.\<close>

theorem Delete_nulls_carrier_witness:
  "Delete (Some demo_task) demo_core demo_world
     = (None, demo_core\<lparr>shielded := None\<rparr>, \<lparr>bucket = [], faults = [], calls = []\<rparr>)
   \<and> fst (Inspect demo_iface (Some demo_task) (Some ready_callback)
             (demo_core\<lparr>shielded := None\<rparr>) () \<lparr>bucket = [], faults = [], calls = []\<rparr>)
       = Some InvalidInstanceError
   \<and> fst (Alter demo_iface (Some demo_task) (Some ready_callback)
             (demo_core\<lparr>shielded := None\<rparr>) () \<lparr>bucket = [], faults = [], calls = []\<rparr>)
       = Some InvalidInstanceError
   \<and> fst (Reload demo_iface (Some demo_task)
             (demo_core\<lparr>shielded := None\<rparr>) \<lparr>bucket = [], faults = [], calls = []\<rparr>)
       = Some InvalidInstanceError"
  using Delete_nulls_carrier [OF demo_Delete, of "Some demo_task" demo_task demo_iface
      ready_callback "()" "\<lparr>bucket = [], faults = [], calls = []\<rparr>"]
    demo_Delete
  by simp

text \<open>
  C6, as the claim states it, fails: \<open>Delete\<close> and \<open>BrowseFolder\<close> are operations
  other than \<open>Carry\<close> and \<open>Read\<close>, and after the \<open>Delete\<close> of the network \<open>n1\<close> a
  second \<open>Delete\<close> returns nil, and so does a \<open>BrowseFolder\<close>. Neither reports
  \<open>InvalidInstance\<close>.
\<close>

theorem Delete_twice_counterexample:
  "Delete (Some demo_task) demo_core demo_world
     = (None, demo_core\<lparr>shielded := None\<rparr>, \<lparr>bucket = [], faults = [], calls = []\<rparr>)
   \<and> Delete (Some demo_task) (demo_core\<lparr>shielded := None\<rparr>) \<lparr>bucket = [], faults = [], calls = []\<rparr>
       = (None, demo_core\<lparr>shielded := None\<rparr>, \<lparr>bucket = [], faults = [], calls = []\<rparr>)
   \<and> BrowseFolder (Some demo_task) (Some (\<lambda>buf u. (None, u))) (demo_core\<lparr>shielded := None\<rparr>) ()
         \<lparr>bucket = [], faults = [], calls = []\<rparr>
       = (None, (), \<lparr>bucket = [], faults = [], calls = []\<rparr>)"
  by (simp add: demo_Delete)
     (simp add: Delete_def BrowseFolder_def Let_def IsNull_def SafeGetID_def SafeGetName_def
        unless_NotFound_def NotFoundError_def demo_defs folder_defs)

subsection \<open>\<open>Read\<close> on an instance that carries nothing\<close>

lemma WhileUnsuccessful_first_try:
  "WhileUnsuccessfulDelay1Second run timeout s w =
     (case run s w of
        (None, s', w') \<Rightarrow> (None, s', w')
      | (Some e, s', w') \<Rightarrow>
          (if has_tag RetryErrStopRetry e then (Some e, s', w')
           else retry_loop timeout (Some e) run s' w'))"
  by (simp add: WhileUnsuccessfulDelay1Second_def)

lemma Read_on_null_carrier:
  assumes "\<not> IsNull (Some c)" and "task = Some t" and "ref \<noteq> []" and "shielded c = None"
  shows "Read ifc task ref c w = (Some (StopRetryError InvalidInstanceError), c, w)"
  using assms
  by (simp add: Read_def WhileUnsuccessful_first_try readByReference_def readByID_null_carrier)

lemma readByReference_order:
  assumes "readByID ifc task ref c w = (r, c1, w1)"
  shows "readByReference ifc task ref c w
           = (case r of
                None \<Rightarrow> (None, c1, w1)
              | Some err \<Rightarrow> if has_tag ErrNotFound err then readByName ifc task ref c1 w1
                            else (Some err, c1, w1))"
  using assms by (simp add: readByReference_def split: option.splits)

text \<open>
  C4, the code at an input where it departs from the claim. The instance is the
  one \<open>NewCore\<close> gives for the networks: its carrier is nil. The bucket holds the
  network \<open>n1\<close> under the id \<open>id1\<close> and under its name. \<open>Read\<close> of \<open>id1\<close>, and
  \<open>Read\<close> of \<open>n1\<close>, passes the check that the instance carries nothing and then reads
  through the nil carrier: the first try fails with \<open>InvalidInstance\<close>, which stops
  the retries. The object storage is not asked for the object, by id or by name,
  nothing is retried, and the instance still carries nothing.
\<close>

theorem Read_fresh_core_failing_input:
  "NewCore False ''network'' ''networks''
     = (\<lparr>kind = ''network'', shielded = None, properties = Some [], folder = Some ''networks'',
         core_name = None, core_id = None\<rparr>, None)
   \<and> map_of (bucket demo_world) (''networks'', ''byID'', ''id1'') = Some ''id1|n1''
   \<and> map_of (bucket demo_world) (''networks'', ''byName'', ''n1'') = Some ''id1|n1''
   \<and> Read demo_iface (Some demo_task) ''id1''
        \<lparr>kind = ''network'', shielded = None, properties = Some [], folder = Some ''networks'',
         core_name = None, core_id = None\<rparr> demo_world
       = (Some (StopRetryError InvalidInstanceError),
          \<lparr>kind = ''network'', shielded = None, properties = Some [], folder = Some ''networks'',
           core_name = None, core_id = None\<rparr>, demo_world)
   \<and> Read demo_iface (Some demo_task) ''n1''
        \<lparr>kind = ''network'', shielded = None, properties = Some [], folder = Some ''networks'',
         core_name = None, core_id = None\<rparr> demo_world
       = (Some (StopRetryError InvalidInstanceError),
          \<lparr>kind = ''network'', shielded = None, properties = Some [], folder = Some ''networks'',
           core_name = None, core_id = None\<rparr>, demo_world)"
  using Read_on_null_carrier [of "\<lparr>kind = ''network'', shielded = None, properties = Some [],
      folder = Some ''networks'', core_name = None, core_id = None\<rparr>" "Some demo_task" demo_task
      "''id1''" demo_iface demo_world]
    Read_on_null_carrier [of "\<lparr>kind = ''network'', shielded = None, properties = Some [],
      folder = Some ''networks'', core_name = None, core_id = None\<rparr>" "Some demo_task" demo_task
      "''n1''" demo_iface demo_world]
  by (simp add: NewCore_def NewJSONProperties_def IsNull_def demo_world_def)

section \<open>Properties of the network resource\<close>

subsection \<open>\<open>deleteGateway\<close>\<close>

lemma cause_of_Wrap [simp]: "cause_of (Wrap c m) = c"
  by (simp add: cause_of_def Wrap_def)

lemma failures_two: "failures [a, b] = failures [a] @ failures [b]"
  by (simp add: failures_def)

text \<open>
  C7. \<open>deleteGateway\<close> sends the deletion of the host to the provider (the request
  is the next one in the log), then deletes the metadata of the host in the world
  the provider call left, whatever the first step returned. With \<open>xerr1\<close> and
  \<open>xerr2\<close> the outcomes of the two steps, the errors kept are one wrapped error for
  each outcome that is an error other than a \<open>NotFound\<close>, in the order of the steps:
  a \<open>NotFound\<close> at either step is kept nowhere. The function returns nil when that
  list is empty, and otherwise one \<open>ErrList\<close> that holds the list.
\<close>

theorem deleteGateway_accumulates:
  assumes "svc_DeleteHost svc (SafeGetID gw) w = (xerr1, w1)"
    and "Delete task gw w1 = (xerr2, gw', w2)"
  shows "\<exists>errs. deleteGateway svc task gw w
                  = (if errs = [] then None else Some (ErrList (ErrCore [] None None [] OK) errs),
                     gw', w2)
           \<and> map cause_of errs = map Some (failures [xerr1, xerr2])
           \<and> calls w1 = calls w @ [CallDeleteHost (SafeGetID gw)]"
proof -
  define errors1 where "errors1 =
     (case xerr1 of
        None \<Rightarrow> []
      | Some e \<Rightarrow>
          if has_tag ErrNotFound e then []
          else if has_tag ErrTimeout e
          then [Wrap (Some e) (''failed to delete host '' @ quoted (SafeGetName gw) @ '', timeout'')]
          else [Wrap (Some e) (''failed to delete host '' @ quoted (SafeGetName gw))])"
  define errors2 where "errors2 =
     (case xerr2 of
        None \<Rightarrow> []
      | Some e \<Rightarrow>
          if has_tag ErrNotFound e then []
          else if has_tag ErrTimeout e
          then [Wrap (Some e)
                  (''timeout trying to delete gateway metadata''
                   @ ''%!(EXTRA string='' @ SafeGetName gw @ '')'')]
          else [Wrap (Some e) (''failed to delete gateway '' @ quoted (SafeGetName gw) @ '' metadata'')])"
  have c: "calls w1 = calls w @ [CallDeleteHost (SafeGetID gw)]"
    using assms(1) by (auto simp: svc_DeleteHost_def)
  have d: "deleteGateway svc task gw w
             = (if length (errors1 @ errors2) > 0 then ErrListError (errors1 @ errors2) else None,
                gw', w2)"
    unfolding deleteGateway_def Let_def assms(1) prod.case assms(2) errors1_def errors2_def
    by (rule refl)
  have r: "(if length (errors1 @ errors2) > 0 then ErrListError (errors1 @ errors2) else None)
             = (if errors1 @ errors2 = [] then None
                else Some (ErrList (ErrCore [] None None [] OK) (errors1 @ errors2)))"
    by (simp add: ErrListError_def)
  have m1: "map cause_of errors1 = map Some (failures [xerr1])"
    by (cases xerr1) (simp_all add: errors1_def failures_def)
  have m2: "map cause_of errors2 = map Some (failures [xerr2])"
    by (cases xerr2) (simp_all add: errors2_def failures_def)
  have "deleteGateway svc task gw w
          = (if errors1 @ errors2 = [] then None
             else Some (ErrList (ErrCore [] None None [] OK) (errors1 @ errors2)), gw', w2)
        \<and> map cause_of (errors1 @ errors2) = map Some (failures [xerr1, xerr2])
        \<and> calls w1 = calls w @ [CallDeleteHost (SafeGetID gw)]"
    unfolding d r failures_two [of xerr1 xerr2] using m1 m2 c by simp
  then show ?thesis by (rule exI)
qed

lemma demo_Delete_after_call:
  "Delete (Some demo_task) demo_core (demo_world\<lparr>calls := [CallDeleteHost ''id1'']\<rparr>)
     = (None, demo_core\<lparr>shielded := None\<rparr>,
        \<lparr>bucket = [], faults = [], calls = [CallDeleteHost ''id1'']\<rparr>)"
  by (simp add: Delete_def Let_def IsNull_def SafeGetID_def SafeGetName_def unless_NotFound_def
        demo_defs folder_defs)

text \<open>
  C7 with the core of \<open>n1\<close> standing for a gateway host. A provider that refuses
  the deletion: one error is kept, and the metadata is deleted all the same. A
  provider that reports the host as not found: nothing is kept and nil is returned.
\<close>

theorem deleteGateway_accumulates_witness:
  "deleteGateway failing_service (Some demo_task) demo_core demo_world
     = (Some (ErrList (ErrCore [] None None [] OK)
                [Wrap (Some (GoError ''quota'')) (''failed to delete host '' @ quoted ''n1'')]),
        demo_core\<lparr>shielded := None\<rparr>,
        \<lparr>bucket = [], faults = [], calls = [CallDeleteHost ''id1'']\<rparr>)
   \<and> failures [Some (GoError ''quota''), None] = [GoError ''quota'']
   \<and> deleteGateway (demo_service\<lparr>DeleteHost := (\<lambda>log i. Some (NotFoundError i))\<rparr>)
        (Some demo_task) demo_core demo_world
     = (None, demo_core\<lparr>shielded := None\<rparr>,
        \<lparr>bucket = [], faults = [], calls = [CallDeleteHost ''id1'']\<rparr>)
   \<and> failures [Some (NotFoundError ''id1''), None] = []"
proof -
  have h: "svc_DeleteHost failing_service (SafeGetID demo_core) demo_world
             = (Some (GoError ''quota''), demo_world\<lparr>calls := [CallDeleteHost ''id1'']\<rparr>)"
    by (simp add: svc_DeleteHost_def SafeGetID_def IsNull_def demo_defs)
  have h2: "svc_DeleteHost (demo_service\<lparr>DeleteHost := (\<lambda>log i. Some (NotFoundError i))\<rparr>)
               (SafeGetID demo_core) demo_world
             = (Some (NotFoundError ''id1''), demo_world\<lparr>calls := [CallDeleteHost ''id1'']\<rparr>)"
    by (simp add: svc_DeleteHost_def SafeGetID_def IsNull_def demo_defs)
  have f1: "failures [Some (GoError ''quota''), None] = [GoError ''quota'']"
    by (simp add: failures_def)
  have f2: "failures [Some (NotFoundError ''id1''), None] = []"
    by (simp add: failures_def NotFoundError_def)
  from deleteGateway_accumulates [OF h demo_Delete_after_call] obtain errs where
    e: "deleteGateway failing_service (Some demo_task) demo_core demo_world
          = (if errs = [] then None else Some (ErrList (ErrCore [] None None [] OK) errs),
             demo_core\<lparr>shielded := None\<rparr>,
             \<lparr>bucket = [], faults = [], calls = [CallDeleteHost ''id1'']\<rparr>)"
    and m: "map cause_of errs = map Some (failures [Some (GoError ''quota''), None])"
    by blast
  from deleteGateway_accumulates [OF h2 demo_Delete_after_call] obtain errs2 where
    e2: "deleteGateway (demo_service\<lparr>DeleteHost := (\<lambda>log i. Some (NotFoundError i))\<rparr>)
             (Some demo_task) demo_core demo_world
          = (if errs2 = [] then None else Some (ErrList (ErrCore [] None None [] OK) errs2),
             demo_core\<lparr>shielded := None\<rparr>,
             \<lparr>bucket = [], faults = [], calls = [CallDeleteHost ''id1'']\<rparr>)"
    and m2: "map cause_of errs2 = map Some (failures [Some (NotFoundError ''id1''), None])"
    by blast
  from m2 f2 have "errs2 = []" by simp
  with e2 have r2: "deleteGateway (demo_service\<lparr>DeleteHost := (\<lambda>log i. Some (NotFoundError i))\<rparr>)
             (Some demo_task) demo_core demo_world
          = (None, demo_core\<lparr>shielded := None\<rparr>,
             \<lparr>bucket = [], faults = [], calls = [CallDeleteHost ''id1'']\<rparr>)"
    by simp
  have r1: "deleteGateway failing_service (Some demo_task) demo_core demo_world
     = (Some (ErrList (ErrCore [] None None [] OK)
                [Wrap (Some (GoError ''quota'')) (''failed to delete host '' @ quoted ''n1'')]),
        demo_core\<lparr>shielded := None\<rparr>,
        \<lparr>bucket = [], faults = [], calls = [CallDeleteHost ''id1'']\<rparr>)"
    unfolding deleteGateway_def Let_def h prod.case demo_Delete_after_call
    by (simp add: ErrListError_def SafeGetName_def IsNull_def demo_core_def)
  show ?thesis using r1 r2 f1 f2 by simp
qed

subsection \<open>\<open>network.Delete\<close> with hosts attached\<close>

lemma show_nat_1: "show_nat (Suc 0) = ''1''"
  by (subst show_nat.simps) simp

text \<open>
  C1, as amended. For every network instance that is not null, called with a task
  that is not nil, whose metadata \<open>Reload\<close> reads without error, and whose property
  \<open>hosts.v1\<close> has a \<open>ByName\<close> map that is not empty: \<open>network.Delete\<close> returns
  \<open>NotAvailable\<close> with the message that gives the name of the network, the number of
  hosts and the names of the hosts (the keys of \<open>ByName\<close>), separated by commas. No
  request is sent to the provider (the log of calls is as before), and no object of
  the metadata is written or deleted (the bucket is as before).
\<close>

theorem network_Delete_refuses_attached:
  assumes "\<not> IsNull (Some objn)" and "task = Some t"
    and "properties objn = Some props"
    and "map_of props HostsV1 = Some (NetworkHostsV1 hosts)"
    and "ByName hosts \<noteq> []"
    and "Reload ifc task objn w = (None, objn', w')"
    and "shielded objn' = Some an"
  shows "network_Delete loadHost contextTimeout ifc svc task objn w
           = (Some (NotAvailableError
                      (''cannot delete network '' @ quoted (Name an) @ '': ''
                       @ show_nat (length (ByName hosts)) @ '' host'' @ Plural (length (ByName hosts))
                       @ '' '' @ (if length (ByName hosts) = 1 then ''is'' else ''are'')
                       @ '' still attached to it: '' @ strings_Join (map fst (ByName hosts)) '', '')),
              objn', w')
         \<and> calls w' = calls w \<and> bucket w' = bucket w"
proof -
  have k: "calls w' = calls w \<and> bucket w' = bucket w"
    using Reload_keeps [OF assms(6)] by simp
  have p: "populate_properties objn = Inr (objn, props)"
    using assms(3) by (simp add: populate_properties_def)
  have "properties objn' = properties objn"
    using assms(6)
    by (auto simp: Reload_def readByID_def split: if_splits prod.splits option.splits)
  then have o': "objn'\<lparr>properties := Some props\<rparr> = objn'"
    using assms(3) by (cases objn') simp
  have cb: "network_Delete_callback loadHost contextTimeout svc task an props () w'
              = (Some (NotAvailableError
                      (''cannot delete network '' @ quoted (Name an) @ '': ''
                       @ show_nat (length (ByName hosts)) @ '' host'' @ Plural (length (ByName hosts))
                       @ '' '' @ (if length (ByName hosts) = 1 then ''is'' else ''are'')
                       @ '' still attached to it: '' @ strings_Join (map fst (ByName hosts)) '', '')),
                 an, props, (), w')"
    using assms(4,5)
    by (simp add: network_Delete_callback_def JSONProperties_Inspect_def
          attached_hosts_inspector_def Let_def)
  have a: "Alter ifc task (Some (network_Delete_callback loadHost contextTimeout svc task)) objn () w
             = (Some (NotAvailableError
                      (''cannot delete network '' @ quoted (Name an) @ '': ''
                       @ show_nat (length (ByName hosts)) @ '' host'' @ Plural (length (ByName hosts))
                       @ '' '' @ (if length (ByName hosts) = 1 then ''is'' else ''are'')
                       @ '' still attached to it: '' @ strings_Join (map fst (ByName hosts)) '', '')),
                objn'\<lparr>properties := Some props\<rparr>, (), w')"
    using Alter_stops_at_callback_error
      [where cb = "network_Delete_callback loadHost contextTimeout svc task",
       OF assms(1,2) p assms(6,7) cb]
    by simp
  have "network_Delete loadHost contextTimeout ifc svc task objn w
           = (Some (NotAvailableError
                      (''cannot delete network '' @ quoted (Name an) @ '': ''
                       @ show_nat (length (ByName hosts)) @ '' host'' @ Plural (length (ByName hosts))
                       @ '' '' @ (if length (ByName hosts) = 1 then ''is'' else ''are'')
                       @ '' still attached to it: '' @ strings_Join (map fst (ByName hosts)) '', '')),
              objn', w')"
    unfolding network_Delete_def a o' using assms(1,2) by simp
  then show ?thesis using k by (rule conjI)
qed

text \<open>
  The amended C1 at the network \<open>n1\<close> with the host \<open>h1\<close> attached, the fifth
  scenario of the specification: the message is the one the specification gives.
\<close>

theorem network_Delete_refuses_attached_witness:
  "network_Delete (\<lambda>task i w. ((None :: unit Core option, None), w)) 10 demo_iface demo_service
       (Some demo_task) demo_core demo_world
     = (Some (NotAvailableError
                (''cannot delete network '' @ quoted ''n1'' @ '': 1 host is still attached to it: h1'')),
        demo_core, demo_world)
   \<and> calls demo_world = []"
  using network_Delete_refuses_attached [of demo_core "Some demo_task" demo_task demo_hosts
      "\<lparr>ByID = [(''h1'', ''h1'')], ByName = [(''h1'', ''h1'')]\<rparr>" demo_iface demo_world demo_core
      demo_world demo_network "(\<lambda>task i w. ((None :: unit Core option, None), w))" 10 demo_service]
    demo_Reload
  by (simp add: IsNull_def HostsV1_def Plural_def show_nat_1 demo_core_def demo_hosts_def
        demo_network_def demo_world_def)

text \<open>
  C1, as the claim states it, fails at the network \<open>n1\<close> in three ways. With the
  host \<open>h1\<close> attached and a nil task, \<open>network.Delete\<close> answers \<open>InvalidParameter\<close>.
  With the host \<open>h1\<close> attached and an object storage whose next request fails, it
  answers the error of the storage. And with a property \<open>hosts.v1\<close> that holds a
  host in \<open>ByID\<close> and none in \<open>ByName\<close> (two hosts of the same name were attached
  and one of them detached), it does not refuse: with a gateway that is already
  gone, it asks the provider to delete the network and deletes the metadata.
\<close>

theorem network_Delete_counterexample:
  "network_Delete (\<lambda>task i w. ((None :: unit Core option, Some (NotFoundError i)), w)) 10
       demo_iface demo_service None demo_core demo_world
     = (Some (InvalidParameterError ''task'' ''cannot be nil''), demo_core, demo_world)
   \<and> network_Delete (\<lambda>task i w. ((None :: unit Core option, Some (NotFoundError i)), w)) 10
       demo_iface demo_service (Some demo_task) demo_core
       (demo_world\<lparr>faults := [Some (GoError ''connection reset'')]\<rparr>)
     = (Some (GoError ''connection reset''), demo_core, demo_world)
   \<and> network_Delete (\<lambda>task i w. ((None :: unit Core option, Some (NotFoundError i)), w)) 10
       demo_iface demo_service (Some demo_task)
       (demo_core\<lparr>properties :=
          Some [(''hosts.v1'', NetworkHostsV1 \<lparr>ByID = [(''h2'', ''x'')], ByName = []\<rparr>)]\<rparr>)
       demo_world
     = (None,
        demo_core\<lparr>shielded := None,
                  properties :=
                    Some [(''hosts.v1'', NetworkHostsV1 \<lparr>ByID = [(''h2'', ''x'')], ByName = []\<rparr>)]\<rparr>,
        \<lparr>bucket = [], faults = [], calls = [CallDeleteNetwork ''id1'']\<rparr>)"
proof (intro conjI)
  show "network_Delete (\<lambda>task i w. ((None :: unit Core option, Some (NotFoundError i)), w)) 10
       demo_iface demo_service None demo_core demo_world
     = (Some (InvalidParameterError ''task'' ''cannot be nil''), demo_core, demo_world)"
    by (simp add: network_Delete_def IsNull_def demo_core_def)
next
  have r: "Reload demo_iface (Some demo_task) demo_core
             (demo_world\<lparr>faults := [Some (GoError ''connection reset'')]\<rparr>)
           = (Some (GoError ''connection reset''), demo_core, demo_world)"
    by (simp add: Reload_def readByID_def Shielded_Alter_def IsNull_def SafeGetID_def
          demo_defs folder_defs)
  show "network_Delete (\<lambda>task i w. ((None :: unit Core option, Some (NotFoundError i)), w)) 10
       demo_iface demo_service (Some demo_task) demo_core
       (demo_world\<lparr>faults := [Some (GoError ''connection reset'')]\<rparr>)
     = (Some (GoError ''connection reset''), demo_core, demo_world)"
    unfolding network_Delete_def Alter_def
    using r by (simp add: IsNull_def populate_properties_def demo_core_def)
next
  let ?props = "[(''hosts.v1'', NetworkHostsV1 \<lparr>ByID = [(''h2'', ''x'')], ByName = []\<rparr>)]"
  let ?c = "demo_core\<lparr>properties := Some ?props\<rparr>"
  let ?lh = "\<lambda>(task :: task option) (i :: string) (w :: world).
               ((None :: unit Core option, Some (NotFoundError i)), w)"
  have r: "Reload demo_iface (Some demo_task) ?c demo_world = (None, ?c, demo_world)"
    by (simp add: Reload_def readByID_def Shielded_Alter_def IsNull_def SafeGetID_def
          demo_defs folder_defs)
  have cb: "network_Delete_callback ?lh 10 demo_service (Some demo_task) demo_network ?props ()
              demo_world
            = (None, demo_network, ?props, (), demo_world\<lparr>calls := [CallDeleteNetwork ''id1'']\<rparr>)"
    by (simp add: network_Delete_callback_def JSONProperties_Inspect_def HostsV1_def
          attached_hosts_inspector_def Let_def delete_gateway_by_id_def unless_NotFound_def
          NotFoundError_def delete_provider_network_def svc_DeleteNetwork_def demo_defs)
  have wr: "Core_write demo_iface (Some demo_task) ?c (demo_world\<lparr>calls := [CallDeleteNetwork ''id1'']\<rparr>)
            = (None, demo_world\<lparr>calls := [CallDeleteNetwork ''id1'']\<rparr>)"
    by (simp add: Core_write_def Shielded_Inspect_def demo_defs folder_defs)
  have a: "Alter demo_iface (Some demo_task) (Some (network_Delete_callback ?lh 10 demo_service (Some demo_task)))
             ?c () demo_world
           = (None, ?c, (), demo_world\<lparr>calls := [CallDeleteNetwork ''id1'']\<rparr>)"
  proof -
    have n: "\<not> IsNull (Some ?c)" by (simp add: IsNull_def demo_core_def)
    have pp: "populate_properties ?c = Inr (?c, ?props)" by (simp add: populate_properties_def)
    have sh: "shielded ?c = Some demo_network" by (simp add: demo_core_def)
    have eq: "demo_core\<lparr>shielded := Some demo_network, properties := Some ?props\<rparr> = ?c"
      by (simp add: demo_core_def)
    show ?thesis
      unfolding Alter_def using n
      by (simp add: pp r sh Shielded_Alter_def cb eq wr)
  qed
  have d: "Delete (Some demo_task) ?c (demo_world\<lparr>calls := [CallDeleteNetwork ''id1'']\<rparr>)
           = (None, ?c\<lparr>shielded := None\<rparr>,
              \<lparr>bucket = [], faults = [], calls = [CallDeleteNetwork ''id1'']\<rparr>)"
    by (simp add: Delete_def Let_def IsNull_def SafeGetID_def SafeGetName_def unless_NotFound_def
          demo_defs folder_defs)
  have e: "?c\<lparr>shielded := None\<rparr> = demo_core\<lparr>shielded := None, properties := Some ?props\<rparr>"
    by (simp add: demo_core_def)
  show "network_Delete ?lh 10 demo_iface demo_service (Some demo_task) ?c demo_world
     = (None, demo_core\<lparr>shielded := None, properties := Some ?props\<rparr>,
        \<lparr>bucket = [], faults = [], calls = [CallDeleteNetwork ''id1'']\<rparr>)"
    unfolding network_Delete_def a
    by (simp add: IsNull_def d e) (simp add: demo_core_def)
qed

subsection \<open>The names of the gateways\<close>




end
